theory Spec2Isabelle
  imports Complex_Main
begin

section \<open>JSON values and the Python operations the pipeline applies to them\<close>

text \<open>
  A decoded response body. Numbers are the integers (ids and gender codes); an object is
  the sequence of its members as they stand in the text, where a later member with the
  same key replaces the value of an earlier one.
\<close>

datatype json =
    JNull
  | JBool bool
  | JInt int
  | JStr string
  | JArr "json list"
  | JObj "(string \<times> json) list"

text \<open>
  The exceptions of the source: the two failures of a request, an undecodable body, and
  the exceptions Python raises when a value has not the expected shape.
\<close>

datatype py_error =
    NetworkError
  | TimeoutError
  | JSONDecodeError
  | KeyError
  | IndexError
  | TypeError
  | AttributeError
  | ValueError

definition bind_err :: "'e + 'a \<Rightarrow> ('a \<Rightarrow> 'e + 'b) \<Rightarrow> 'e + 'b" where
  "bind_err m f = (case m of Inl e \<Rightarrow> Inl e | Inr x \<Rightarrow> f x)"

text \<open>\<^verbatim>\<open>d[k]\<close> on a dict built from the members: the last member with that key.\<close>

definition dict_lookup :: "(string \<times> json) list \<Rightarrow> string \<Rightarrow> json option" where
  "dict_lookup kvs k = map_of (rev kvs) k"

text \<open>The keys of the dict in insertion order (the first occurrence of each).\<close>

definition dict_keys :: "(string \<times> json) list \<Rightarrow> string list" where
  "dict_keys kvs = rev (remdups (rev (map fst kvs)))"

text \<open>\<^verbatim>\<open>x.get(k, default)\<close>: only a dict has the method.\<close>

fun py_get :: "json \<Rightarrow> string \<Rightarrow> json \<Rightarrow> py_error + json" where
  "py_get (JObj kvs) k dflt =
     (case dict_lookup kvs k of None \<Rightarrow> Inr dflt | Some v \<Rightarrow> Inr v)"
| "py_get _ k dflt = Inl AttributeError"

text \<open>\<^verbatim>\<open>x["k"]\<close> with a string key.\<close>

fun py_item :: "json \<Rightarrow> string \<Rightarrow> py_error + json" where
  "py_item (JObj kvs) k =
     (case dict_lookup kvs k of None \<Rightarrow> Inl KeyError | Some v \<Rightarrow> Inr v)"
| "py_item _ k = Inl TypeError"

text \<open>\<^verbatim>\<open>x[0]\<close>.\<close>

fun py_index0 :: "json \<Rightarrow> py_error + json" where
  "py_index0 (JArr []) = Inl IndexError"
| "py_index0 (JArr (x # xs)) = Inr x"
| "py_index0 (JStr []) = Inl IndexError"
| "py_index0 (JStr (c # cs)) = Inr (JStr [c])"
| "py_index0 (JObj kvs) = Inl KeyError"
| "py_index0 _ = Inl TypeError"

text \<open>Truth value of \<^verbatim>\<open>x\<close> in \<^verbatim>\<open>if not x\<close> and \<^verbatim>\<open>if x\<close>.\<close>

fun py_truthy :: "json \<Rightarrow> bool" where
  "py_truthy JNull = False"
| "py_truthy (JBool b) = b"
| "py_truthy (JInt i) = (i \<noteq> 0)"
| "py_truthy (JStr s) = (s \<noteq> [])"
| "py_truthy (JArr xs) = (xs \<noteq> [])"
| "py_truthy (JObj kvs) = (kvs \<noteq> [])"

text \<open>The elements \<^verbatim>\<open>for p in x\<close> runs over.\<close>

fun py_iter :: "json \<Rightarrow> py_error + json list" where
  "py_iter (JArr xs) = Inr xs"
| "py_iter (JStr s) = Inr (map (\<lambda>c. JStr [c]) s)"
| "py_iter (JObj kvs) = Inr (map JStr (dict_keys kvs))"
| "py_iter _ = Inl TypeError"

text \<open>\<^verbatim>\<open>x == 1\<close>: \<^verbatim>\<open>True == 1\<close> holds in Python.\<close>

fun py_eq_one :: "json \<Rightarrow> bool" where
  "py_eq_one (JInt i) = (i = 1)"
| "py_eq_one (JBool b) = b"
| "py_eq_one _ = False"

section \<open>Data model\<close>

text \<open>A director as the fetcher builds it and as the cache column \<^verbatim>\<open>Directors\<close> holds it.\<close>

record director =
  name :: json
  gender :: string

text \<open>A row of the merged frame: the user's row joined with the cache row of its film.\<close>

record ('n, 'y) merged_row =
  m_Name :: 'n
  m_Year :: 'y
  m_Rating :: real
  m_URI :: string
  m_TMDB_ID :: "int option"
  m_Directors :: "director list"

section \<open>Aggregation: the bucket loop\<close>

record buckets =
  female_director_list :: "json list"
  female_ratings :: "real list"
  other_ratings :: "real list"

definition empty_buckets :: buckets where
  "empty_buckets = \<lparr>female_director_list = [], female_ratings = [], other_ratings = []\<rparr>"

text \<open>The inner loop \<^verbatim>\<open>for d in row['Directors']\<close>.\<close>

fun directors_loop :: "real \<Rightarrow> director list \<Rightarrow> buckets \<Rightarrow> buckets" where
  "directors_loop rating [] b = b"
| "directors_loop rating (d # ds) b =
     directors_loop rating ds
       (if gender d = ''Female''
        then b\<lparr>female_director_list := female_director_list b @ [name d],
               female_ratings := female_ratings b @ [rating]\<rparr>
        else b\<lparr>other_ratings := other_ratings b @ [rating]\<rparr>)"

text \<open>The outer loop \<^verbatim>\<open>for _, row in merged.iterrows()\<close>.\<close>

fun rows_loop :: "('n, 'y) merged_row list \<Rightarrow> buckets \<Rightarrow> buckets" where
  "rows_loop [] b = b"
| "rows_loop (row # rows) b = rows_loop rows (directors_loop (m_Rating row) (m_Directors row) b)"

text \<open>\<^verbatim>\<open>sum(xs)/len(xs) if xs else 0\<close>.\<close>

definition py_mean :: "real list \<Rightarrow> real" where
  "py_mean xs = (if xs = [] then 0 else sum_list xs / real (length xs))"

section \<open>Aggregation: the director tally\<close>

text \<open>
  \<^verbatim>\<open>Counter(female_director_list)\<close> is a dict from names to counts in the order of first
  insertion. A list or a dict cannot be a key (TypeError); \<^verbatim>\<open>1\<close> and \<^verbatim>\<open>True\<close> are
  the same key.
\<close>

fun py_hashable :: "json \<Rightarrow> bool" where
  "py_hashable (JArr xs) = False"
| "py_hashable (JObj kvs) = False"
| "py_hashable _ = True"

fun py_key_eq :: "json \<Rightarrow> json \<Rightarrow> bool" where
  "py_key_eq (JInt i) (JBool b) = (i = (if b then 1 else 0))"
| "py_key_eq (JBool b) (JInt i) = (i = (if b then 1 else 0))"
| "py_key_eq x y = (x = y)"

fun counter_incr :: "json \<Rightarrow> (json \<times> nat) list \<Rightarrow> (json \<times> nat) list" where
  "counter_incr x [] = [(x, 1)]"
| "counter_incr x ((k, n) # rest) =
     (if py_key_eq k x then (k, Suc n) # rest else (k, n) # counter_incr x rest)"

fun Counter :: "json list \<Rightarrow> (json \<times> nat) list \<Rightarrow> py_error + (json \<times> nat) list" where
  "Counter [] c = Inr c"
| "Counter (x # xs) c =
     (if py_hashable x then Counter xs (counter_incr x c) else Inl TypeError)"

text \<open>
  \<^verbatim>\<open>most_common(1)[0]\<close>, taken only when the counter is not empty: the first entry with
  the greatest count.
\<close>

fun most_common_loop :: "json \<times> nat \<Rightarrow> (json \<times> nat) list \<Rightarrow> json \<times> nat" where
  "most_common_loop best [] = best"
| "most_common_loop best (kv # rest) =
     most_common_loop (if snd best < snd kv then kv else best) rest"

definition top_director_data :: "(json \<times> nat) list \<Rightarrow> (json \<times> nat) option" where
  "top_director_data director_counts =
     (case director_counts of [] \<Rightarrow> None | kv # rest \<Rightarrow> Some (most_common_loop kv rest))"

section \<open>Aggregation: the best rated films directed by women\<close>

record ('n, 'y) pick =
  p_Name :: 'n
  p_Year :: 'y
  p_TMDB_ID :: int
  p_Rating :: real
  p_URI :: string

definition is_female :: "director \<Rightarrow> bool" where
  "is_female d = (gender d = ''Female'')"

definition female_directed_df :: "('n, 'y) merged_row list \<Rightarrow> ('n, 'y) merged_row list" where
  "female_directed_df merged = filter (\<lambda>row. list_ex is_female (m_Directors row)) merged"

text \<open>\<^verbatim>\<open>fillna(0).astype(int)\<close> on the copy, and the five columns of the output.\<close>

definition render_pick :: "('n, 'y) merged_row \<Rightarrow> ('n, 'y) pick" where
  "render_pick row =
     \<lparr>p_Name = m_Name row, p_Year = m_Year row,
      p_TMDB_ID = (case m_TMDB_ID row of None \<Rightarrow> 0 | Some i \<Rightarrow> i),
      p_Rating = m_Rating row, p_URI = m_URI row\<rparr>"

definition top_female_picks :: "('n, 'y) merged_row list \<Rightarrow> ('n, 'y) pick list" where
  "top_female_picks merged =
     (case female_directed_df merged of
        [] \<Rightarrow> []
      | row # rows \<Rightarrow>
          (let max_rating = fold max (map m_Rating rows) (m_Rating row)
           in map render_pick (filter (\<lambda>r. m_Rating r = max_rating) (row # rows))))"

section \<open>Aggregation: the response\<close>

record ('n, 'y) result =
  female_avg :: real
  other_avg :: real
  most_watched_female_director :: "(json \<times> nat) option"
  best_rated_female_directed :: "('n, 'y) pick list"

definition aggregate :: "('n, 'y) merged_row list \<Rightarrow> py_error + ('n, 'y) result" where
  "aggregate merged =
     (let b = rows_loop merged empty_buckets
      in bind_err (Counter (female_director_list b) [])
           (\<lambda>director_counts.
              Inr \<lparr>female_avg = py_mean (female_ratings b),
                   other_avg = py_mean (other_ratings b),
                   most_watched_female_director = top_director_data director_counts,
                   best_rated_female_directed = top_female_picks merged\<rparr>))"

section \<open>The metadata fetcher\<close>

text \<open>
  The outside world of one request: the two read operations of the movie database, each
  with the decoding of its body (\<^verbatim>\<open>client.get(...)\<close> followed by \<^verbatim>\<open>.json()\<close>; an
  error is a failed request, a timeout or an undecodable body), and Python's \<^verbatim>\<open>int\<close>
  on a string. The credits are asked for by the id the search gave, whatever it is.
\<close>

record ('n, 'y) env =
  search_movie :: "'n \<Rightarrow> 'y \<Rightarrow> py_error + json"
  movie_credits :: "json \<Rightarrow> py_error + json"
  int_of_str :: "string \<Rightarrow> int option"

text \<open>
  One entry of the comprehension over the crew: \<^verbatim>\<open>p["job"]\<close> is read for every entry,
  \<^verbatim>\<open>p["name"]\<close> and then \<^verbatim>\<open>p["gender"]\<close> for an entry it keeps. \<open>None\<close> is an entry
  the filter drops.
\<close>

definition director_entry :: "json \<Rightarrow> py_error + director option" where
  "director_entry p =
     bind_err (py_item p ''job'')
       (\<lambda>job.
          if job = JStr ''Director''
          then bind_err (py_item p ''name'')
                 (\<lambda>n. bind_err (py_item p ''gender'')
                    (\<lambda>g. Inr (Some \<lparr>name = n,
                                      gender = (if py_eq_one g then ''Female'' else ''Other'')\<rparr>)))
          else Inr None)"

text \<open>The comprehension: the entries in order; the first exception ends it.\<close>

fun directors_of :: "json list \<Rightarrow> py_error + director list" where
  "directors_of [] = Inr []"
| "directors_of (p # ps) =
     bind_err (director_entry p)
       (\<lambda>d. bind_err (directors_of ps)
          (\<lambda>ds. Inr (case d of None \<Rightarrow> ds | Some x \<Rightarrow> x # ds)))"

text \<open>The body of the \<^verbatim>\<open>try\<close> block of \<^verbatim>\<open>get_movie_data\<close>.\<close>

definition fetch_body :: "('n, 'y) env \<Rightarrow> 'n \<Rightarrow> 'y \<Rightarrow> py_error + (json \<times> director list)" where
  "fetch_body e nm year =
     bind_err (search_movie e nm year)
       (\<lambda>search_res. bind_err (py_get search_res ''results'' JNull)
          (\<lambda>results.
             if \<not> py_truthy results then Inr (JNull, [])
             else bind_err (py_index0 results)
                    (\<lambda>first. bind_err (py_item first ''id'')
                       (\<lambda>movie_id. bind_err (movie_credits e movie_id)
                          (\<lambda>credits_res. bind_err (py_get credits_res ''crew'' (JArr []))
                             (\<lambda>crew. bind_err (py_iter crew)
                                (\<lambda>ps. bind_err (directors_of ps)
                                   (\<lambda>directors. Inr (movie_id, directors)))))))))"

text \<open>\<^verbatim>\<open>except Exception\<close>: every exception of the body becomes \<^verbatim>\<open>(None, [])\<close>.\<close>

definition get_movie_data :: "('n, 'y) env \<Rightarrow> 'n \<Rightarrow> 'y \<Rightarrow> json \<times> director list" where
  "get_movie_data e nm year =
     (case fetch_body e nm year of Inl err \<Rightarrow> (JNull, []) | Inr r \<Rightarrow> r)"

section \<open>The upload and the cache\<close>

text \<open>
  A cell of the uploaded \<^verbatim>\<open>Rating\<close> column, as \<^verbatim>\<open>pd.to_numeric(errors="coerce")\<close>
  sorts it: empty, a number, or a text that is no number.
\<close>

datatype raw_rating = Missing | Numeric real | NonNumeric string

text \<open>
  A row of the upload as \<^verbatim>\<open>pd.read_csv\<close> hands it over: the name may be missing; the
  year is an integer, as the signature of \<^verbatim>\<open>get_movie_data\<close> says; the column
  \<^verbatim>\<open>Letterboxd URI\<close> is a string. A rating is a real number (the rounding of floats is
  not modelled). A row of the cache file holds what was written to it: the file reads
  back as written, with the column \<^verbatim>\<open>Directors\<close> decoded.
\<close>

record ('n, 'y) upload_row =
  up_Name :: 'n
  up_Year :: 'y
  up_Rating :: raw_rating
  up_URI :: string

record ('n, 'y) user_row =
  u_Name :: 'n
  u_Year :: 'y
  u_Rating :: real
  u_URI :: string

record ('n, 'y) cache_row =
  c_Name :: 'n
  c_Year :: 'y
  c_URI :: string
  c_TMDB_ID :: "int option"
  c_Directors :: "director list"

fun to_numeric :: "raw_rating \<Rightarrow> real option" where
  "to_numeric Missing = None"
| "to_numeric (Numeric x) = Some x"
| "to_numeric (NonNumeric s) = None"

text \<open>\<^verbatim>\<open>dropna(subset=["Name", "Rating"])\<close> after the coercion, row by row.\<close>

definition clean_row :: "(string option, int) upload_row \<Rightarrow> (string, int) user_row option" where
  "clean_row r =
     (case up_Name r of
        None \<Rightarrow> None
      | Some n \<Rightarrow>
          (case to_numeric (up_Rating r) of
             None \<Rightarrow> None
           | Some x \<Rightarrow> Some \<lparr>u_Name = n, u_Year = up_Year r, u_Rating = x, u_URI = up_URI r\<rparr>))"

definition load_and_clean :: "(string option, int) upload_row list \<Rightarrow> (string, int) user_row list" where
  "load_and_clean rows = List.map_filter clean_row rows"

text \<open>\<^verbatim>\<open>str\<close> of an integer: its decimal digits, with a sign when negative.\<close>

fun digits_of_nat :: "nat \<Rightarrow> string" where
  "digits_of_nat n =
     (if n < 10 then [''0123456789'' ! n]
      else digits_of_nat (n div 10) @ [''0123456789'' ! (n mod 10)])"

declare digits_of_nat.simps [simp del]

definition py_str_int :: "int \<Rightarrow> string" where
  "py_str_int i = (if i < 0 then CHR ''-'' # digits_of_nat (nat (- i)) else digits_of_nat (nat i))"

text \<open>The column \<^verbatim>\<open>key\<close>: the name followed by the year, as one string.\<close>

definition user_key :: "(string, int) user_row \<Rightarrow> string" where
  "user_key row = u_Name row @ py_str_int (u_Year row)"

definition cache_key :: "(string, int) cache_row \<Rightarrow> string" where
  "cache_key row = c_Name row @ py_str_int (c_Year row)"

section \<open>The orchestrator\<close>

text \<open>\<^verbatim>\<open>df_user[~df_user["key"].isin(cache_df["key"])]\<close>.\<close>

definition to_fetch ::
  "(string, int) cache_row list \<Rightarrow> (string, int) user_row list \<Rightarrow> (string, int) user_row list" where
  "to_fetch cache df_user = filter (\<lambda>row. user_key row \<notin> set (map cache_key cache)) df_user"

text \<open>
  The tasks: one call of \<^verbatim>\<open>get_movie_data\<close> for each row of \<^verbatim>\<open>to_fetch\<close>, and the list
  \<^verbatim>\<open>asyncio.gather\<close> returns, in the order of the tasks. The semaphore bounds how many
  calls run at once and changes no result.
\<close>

definition fetch_calls ::
  "(string, int) cache_row list \<Rightarrow> (string, int) user_row list \<Rightarrow> (string \<times> int) list" where
  "fetch_calls cache df_user = map (\<lambda>row. (u_Name row, u_Year row)) (to_fetch cache df_user)"

definition api_results :: "('n, 'y) env \<Rightarrow> ('n, 'y) user_row list \<Rightarrow> (json \<times> director list) list" where
  "api_results e rows = map (\<lambda>row. get_movie_data e (u_Name row) (u_Year row)) rows"

text \<open>\<^verbatim>\<open>int(m_id)\<close>.\<close>

fun py_int :: "('a, 'b) env \<Rightarrow> json \<Rightarrow> py_error + int" where
  "py_int e (JInt i) = Inr i"
| "py_int e (JBool b) = Inr (if b then 1 else 0)"
| "py_int e (JStr s) = (case int_of_str e s of None \<Rightarrow> Inl ValueError | Some i \<Rightarrow> Inr i)"
| "py_int e _ = Inl TypeError"

text \<open>\<^verbatim>\<open>int(m_id) if m_id else None\<close>.\<close>

definition tmdb_id_cell :: "('a, 'b) env \<Rightarrow> json \<Rightarrow> py_error + int option" where
  "tmdb_id_cell e m_id =
     (if py_truthy m_id then bind_err (py_int e m_id) (\<lambda>i. Inr (Some i)) else Inr None)"

text \<open>The dict appended to \<^verbatim>\<open>new_rows\<close> for one row and its result.\<close>

definition new_row ::
  "('a, 'b) env \<Rightarrow> ('n, 'y) user_row \<Rightarrow> json \<Rightarrow> director list \<Rightarrow> py_error + ('n, 'y) cache_row" where
  "new_row e row m_id directors =
     bind_err (tmdb_id_cell e m_id)
       (\<lambda>tid. Inr \<lparr>c_Name = u_Name row, c_Year = u_Year row, c_URI = u_URI row,
                    c_TMDB_ID = tid, c_Directors = directors\<rparr>)"

text \<open>The loop that builds \<^verbatim>\<open>new_rows\<close> from the rows to fetch and their results.\<close>

fun new_rows_loop ::
  "('a, 'b) env \<Rightarrow> (('n, 'y) user_row \<times> json \<times> director list) list \<Rightarrow>
     py_error + ('n, 'y) cache_row list" where
  "new_rows_loop e [] = Inr []"
| "new_rows_loop e ((row, m_id, directors) # rest) =
     bind_err (new_row e row m_id directors)
       (\<lambda>r. bind_err (new_rows_loop e rest) (\<lambda>rows. Inr (r # rows)))"

text \<open>
  Step 2 of the request. The cache file is written once, after the loop; an exception of
  the loop leaves it as it was.
\<close>

definition enrich ::
  "(string, int) env \<Rightarrow> (string, int) cache_row list \<Rightarrow> (string, int) user_row list \<Rightarrow>
     py_error + (string, int) cache_row list" where
  "enrich e cache df_user =
     (let rows = to_fetch cache df_user
      in if rows = [] then Inr cache
         else bind_err (new_rows_loop e (zip rows (api_results e rows)))
                (\<lambda>new_rows. Inr (cache @ new_rows)))"

text \<open>
  The inner join of the user's rows with the cache on \<^verbatim>\<open>Name\<close> and \<^verbatim>\<open>Year\<close>: the
  rows in the order of the user's rows and, for one user row, of the cache rows.
\<close>

definition join_row :: "(string, int) user_row \<Rightarrow> (string, int) cache_row \<Rightarrow> (string, int) merged_row" where
  "join_row u c =
     \<lparr>m_Name = u_Name u, m_Year = u_Year u, m_Rating = u_Rating u, m_URI = u_URI u,
      m_TMDB_ID = c_TMDB_ID c, m_Directors = c_Directors c\<rparr>"

definition merge_frames ::
  "(string, int) user_row list \<Rightarrow> (string, int) cache_row list \<Rightarrow> (string, int) merged_row list" where
  "merge_frames df_user full_cache =
     concat (map (\<lambda>u. map (join_row u)
                        (filter (\<lambda>c. c_Name c = u_Name u \<and> c_Year c = u_Year u) full_cache))
                 df_user)"

text \<open>
  One request: the calls made to the fetcher, the cache file the request leaves, and the
  response or the exception that ended the request.
\<close>

record ('n, 'y, 'cn, 'cy) outcome =
  fetch_log :: "('n \<times> 'y) list"
  cache_after :: "('cn, 'cy) cache_row list"
  response :: "py_error + ('n, 'y) result"

definition analyze_letterboxd ::
  "(string, int) env \<Rightarrow> (string, int) cache_row list \<Rightarrow> (string option, int) upload_row list \<Rightarrow>
     (string, int, string, int) outcome" where
  "analyze_letterboxd e cache upload =
     (let df_user = load_and_clean upload
      in case enrich e cache df_user of
           Inl err \<Rightarrow>
             \<lparr>fetch_log = fetch_calls cache df_user, cache_after = cache, response = Inl err\<rparr>
         | Inr full_cache \<Rightarrow>
             \<lparr>fetch_log = fetch_calls cache df_user, cache_after = full_cache,
              response = aggregate (merge_frames df_user full_cache)\<rparr>)"

section \<open>The request on the CSV files: column types\<close>

text \<open>
  \<^verbatim>\<open>pd.read_csv\<close> gives a column one type for all its rows, and the request reads the
  columns \<^verbatim>\<open>Name\<close> and \<^verbatim>\<open>Year\<close> of both files through that type. A cell of these
  columns is empty, an integer (\<^verbatim>\<open>2000\<close>), a float with an integral value
  (\<^verbatim>\<open>2000.0\<close>), or a text that is none of these. Cells with other floats, booleans and
  integers written in another way than \<^verbatim>\<open>str\<close> writes them are left out; the column
  \<^verbatim>\<open>Letterboxd URI\<close> is text.
\<close>

datatype cell = Empty | IntCell int | FloatCell int | TextCell string

text \<open>
  The type of a column: a column with a text is \<^verbatim>\<open>object\<close>, as is a column of a file
  with no row; a column of integers is \<^verbatim>\<open>int64\<close>; a column of numbers with an empty cell
  or a float is \<^verbatim>\<open>float64\<close>. The type is that of the whole column as read, before any
  row is dropped.
\<close>

datatype dtype = Int64 | Float64 | Object

fun is_text :: "cell \<Rightarrow> bool" where
  "is_text (TextCell s) = True"
| "is_text _ = False"

fun is_int_cell :: "cell \<Rightarrow> bool" where
  "is_int_cell (IntCell k) = True"
| "is_int_cell _ = False"

definition column_dtype :: "cell list \<Rightarrow> dtype" where
  "column_dtype cells =
     (if cells = [] \<or> list_ex is_text cells then Object
      else if list_all is_int_cell cells then Int64
      else Float64)"

text \<open>
  A cell as a column of type \<open>D\<close> holds it: a \<^verbatim>\<open>float64\<close> column holds an integer as a
  float; an \<^verbatim>\<open>object\<close> column holds the text of the cell.
\<close>

fun floatify :: "cell \<Rightarrow> cell" where
  "floatify (IntCell k) = FloatCell k"
| "floatify c = c"

definition held :: "dtype \<Rightarrow> cell \<Rightarrow> cell" where
  "held D c = (if D = Float64 then floatify c else c)"

text \<open>\<^verbatim>\<open>astype(str)\<close> on a column of type \<open>D\<close>: an empty cell gives \<^verbatim>\<open>nan\<close>.\<close>

fun cell_text :: "cell \<Rightarrow> string" where
  "cell_text Empty = ''nan''"
| "cell_text (IntCell k) = py_str_int k"
| "cell_text (FloatCell k) = py_str_int k @ ''.0''"
| "cell_text (TextCell s) = s"

definition astype_str :: "dtype \<Rightarrow> cell \<Rightarrow> string" where
  "astype_str D c = cell_text (held D c)"

text \<open>
  The Python value \<^verbatim>\<open>row["Name"]\<close> or \<^verbatim>\<open>row["Year"]\<close> that \<^verbatim>\<open>iterrows\<close> hands to the
  fetcher and to \<^verbatim>\<open>new_rows\<close>: NaN, an integer, a float, or a string.
\<close>

datatype pyval = PNaN | PInt int | PFloat int | PStr string

definition pyval_of :: "dtype \<Rightarrow> cell \<Rightarrow> pyval" where
  "pyval_of D c =
     (case held D c of
        Empty \<Rightarrow> PNaN
      | IntCell k \<Rightarrow> (if D = Object then PStr (py_str_int k) else PInt k)
      | FloatCell k \<Rightarrow> (if D = Object then PStr (py_str_int k @ ''.0'') else PFloat k)
      | TextCell s \<Rightarrow> PStr s)"

text \<open>
  A float64 holds every integer up to 2 to the power 53 in absolute value exactly. Files whose
  numbers stay within that bound are the ones the definitions below describe.
\<close>

definition small :: "int \<Rightarrow> bool" where
  "small k = (\<bar>k\<bar> \<le> 9007199254740992)"

fun small_cell :: "cell \<Rightarrow> bool" where
  "small_cell (IntCell k) = small k"
| "small_cell (FloatCell k) = small k"
| "small_cell _ = True"

fun small_id :: "int option \<Rightarrow> bool" where
  "small_id None = True"
| "small_id (Some k) = small k"

definition small_files :: "(cell, cell) cache_row list \<Rightarrow> (cell, cell) upload_row list \<Rightarrow> bool" where
  "small_files cache upload =
     (list_all (\<lambda>r. small_cell (up_Name r) \<and> small_cell (up_Year r)) upload \<and>
      list_all (\<lambda>c. small_cell (c_Name c) \<and> small_cell (c_Year c) \<and> small_id (c_TMDB_ID c)) cache)"

text \<open>Lines 53 to 56: the column types of the upload as read, and the rows \<^verbatim>\<open>dropna\<close> keeps.\<close>

definition name_dtype :: "(cell, cell) upload_row list \<Rightarrow> dtype" where
  "name_dtype upload = column_dtype (map up_Name upload)"

definition year_dtype :: "(cell, cell) upload_row list \<Rightarrow> dtype" where
  "year_dtype upload = column_dtype (map up_Year upload)"

definition clean_cells :: "(cell, cell) upload_row \<Rightarrow> (cell, cell) user_row option" where
  "clean_cells r =
     (if up_Name r = Empty then None
      else case to_numeric (up_Rating r) of
             None \<Rightarrow> None
           | Some x \<Rightarrow> Some \<lparr>u_Name = up_Name r, u_Year = up_Year r, u_Rating = x, u_URI = up_URI r\<rparr>)"

definition kept_rows :: "(cell, cell) upload_row list \<Rightarrow> (cell, cell) user_row list" where
  "kept_rows upload = List.map_filter clean_cells upload"

text \<open>
  The column \<^verbatim>\<open>key\<close> of the user's frame (line 56) and of the cache (line 65), each
  through the types of its own columns, and the rows to fetch (lines 67 and 68).
\<close>

definition key_text :: "dtype \<Rightarrow> dtype \<Rightarrow> cell \<Rightarrow> cell \<Rightarrow> string" where
  "key_text Dn Dy n y = astype_str Dn n @ astype_str Dy y"

definition cache_keys :: "(cell, cell) cache_row list \<Rightarrow> string list" where
  "cache_keys cache =
     map (\<lambda>c. key_text (column_dtype (map c_Name cache)) (column_dtype (map c_Year cache))
                  (c_Name c) (c_Year c)) cache"

definition to_fetch_typed ::
  "dtype \<Rightarrow> dtype \<Rightarrow> (cell, cell) user_row list \<Rightarrow> (cell, cell) cache_row list \<Rightarrow> (cell, cell) user_row list" where
  "to_fetch_typed Dn Dy rows cache =
     filter (\<lambda>row. key_text Dn Dy (u_Name row) (u_Year row) \<notin> set (cache_keys cache)) rows"

definition as_python :: "dtype \<Rightarrow> dtype \<Rightarrow> (cell, cell) user_row \<Rightarrow> (pyval, pyval) user_row" where
  "as_python Dn Dy row =
     \<lparr>u_Name = pyval_of Dn (u_Name row), u_Year = pyval_of Dy (u_Year row),
      u_Rating = u_Rating row, u_URI = u_URI row\<rparr>"

text \<open>
  Lines 92 to 97. \<^verbatim>\<open>pd.DataFrame(new_rows)\<close> types a column from the Python values in it
  (values that are all NaN give \<^verbatim>\<open>float64\<close>); \<^verbatim>\<open>pd.concat\<close> gives a column the common
  type of the cache file, read once more and without any \<^verbatim>\<open>dtype\<close>, and of the new rows,
  where a frame with no row does not count; \<^verbatim>\<open>to_csv\<close> then writes every row, the old
  ones too, through that type.
\<close>

definition new_dtype :: "dtype \<Rightarrow> cell list \<Rightarrow> dtype" where
  "new_dtype D cells = (if D = Object \<and> list_all (\<lambda>c. c = Empty) cells then Float64 else D)"

fun sup_dtype :: "dtype \<Rightarrow> dtype \<Rightarrow> dtype" where
  "sup_dtype Object D = Object"
| "sup_dtype D Object = Object"
| "sup_dtype Float64 D = Float64"
| "sup_dtype D Float64 = Float64"
| "sup_dtype Int64 Int64 = Int64"

definition combined_dtype :: "cell list \<Rightarrow> dtype \<Rightarrow> cell list \<Rightarrow> dtype" where
  "combined_dtype old D new =
     (if old = [] then new_dtype D new else sup_dtype (column_dtype old) (new_dtype D new))"

definition combined_cache ::
  "dtype \<Rightarrow> dtype \<Rightarrow> (cell, cell) cache_row list \<Rightarrow> (cell, cell) cache_row list \<Rightarrow> (cell, cell) cache_row list" where
  "combined_cache Dn Dy cache new_rows =
     (let Dn_old = column_dtype (map c_Name cache);
          Dy_old = column_dtype (map c_Year cache);
          Dn_all = combined_dtype (map c_Name cache) Dn (map c_Name new_rows);
          Dy_all = combined_dtype (map c_Year cache) Dy (map c_Year new_rows)
      in map (\<lambda>c. c\<lparr>c_Name := held Dn_all (held Dn_old (c_Name c)),
                      c_Year := held Dy_all (held Dy_old (c_Year c))\<rparr>) cache
         @ map (\<lambda>c. c\<lparr>c_Name := held Dn_all (held Dn (c_Name c)),
                        c_Year := held Dy_all (held Dy (c_Year c))\<rparr>) new_rows)"

text \<open>
  Lines 102 to 104. \<^verbatim>\<open>merge\<close> first compares the types of each key column on the two
  sides: when both sides have rows, or neither has, and one column is \<^verbatim>\<open>object\<close> and the
  other numeric, it raises \<^verbatim>\<open>ValueError\<close> unless what it infers from the values of both
  allows the join. Then it joins on the values, where an integer equals the float of
  the same value and NaN matches NaN; the key columns of the result are those of the
  user's frame.
\<close>

datatype inferred = KInteger | KFloating | KString | KEmpty

definition infer_dtype :: "dtype \<Rightarrow> cell list \<Rightarrow> inferred" where
  "infer_dtype D cells =
     (case D of
        Int64 \<Rightarrow> KInteger
      | Float64 \<Rightarrow> KFloating
      | Object \<Rightarrow> (if cells = [] then KEmpty
                    else if list_ex (\<lambda>c. c \<noteq> Empty) cells then KString
                    else KFloating))"

definition merge_refused :: "dtype \<Rightarrow> cell list \<Rightarrow> dtype \<Rightarrow> cell list \<Rightarrow> bool" where
  "merge_refused Dl ls Dr rs =
     (let il = infer_dtype Dl ls; ir = infer_dtype Dr rs
      in \<not> ((ls = []) \<noteq> (rs = [])) \<and> Dl \<noteq> Dr \<and> (Dl = Object \<or> Dr = Object) \<and>
         \<not> (il \<in> {KInteger, KEmpty} \<and> ir \<in> {KInteger, KEmpty}) \<and>
         ((il \<in> {KString, KEmpty}) \<noteq> (ir \<in> {KString, KEmpty})))"

datatype mval = MNaN | MNum int | MStr string

fun key_val :: "pyval \<Rightarrow> mval" where
  "key_val PNaN = MNaN"
| "key_val (PInt k) = MNum k"
| "key_val (PFloat k) = MNum k"
| "key_val (PStr s) = MStr s"

fun cell_value :: "cell \<Rightarrow> mval" where
  "cell_value Empty = MNaN"
| "cell_value (IntCell k) = MNum k"
| "cell_value (FloatCell k) = MNum k"
| "cell_value (TextCell s) = MStr s"

definition merged_typed ::
  "dtype \<Rightarrow> dtype \<Rightarrow> (cell, cell) user_row list \<Rightarrow> (cell, cell) cache_row list \<Rightarrow>
     py_error + (pyval, pyval) merged_row list" where
  "merged_typed Dn Dy rows full_cache =
     (let Dn_c = column_dtype (map c_Name full_cache);
          Dy_c = column_dtype (map c_Year full_cache)
      in if merge_refused Dn (map u_Name rows) Dn_c (map c_Name full_cache) \<or>
            merge_refused Dy (map u_Year rows) Dy_c (map c_Year full_cache)
         then Inl ValueError
         else Inr (concat (map (\<lambda>u.
                map (\<lambda>c. \<lparr>m_Name = pyval_of Dn (u_Name u), m_Year = pyval_of Dy (u_Year u),
                            m_Rating = u_Rating u, m_URI = u_URI u,
                            m_TMDB_ID = c_TMDB_ID c, m_Directors = c_Directors c\<rparr>)
                  (filter (\<lambda>c. key_val (pyval_of Dn_c (c_Name c)) = key_val (pyval_of Dn (u_Name u)) \<and>
                                key_val (pyval_of Dy_c (c_Year c)) = key_val (pyval_of Dy (u_Year u)))
                     full_cache)) rows)))"

definition respond ::
  "dtype \<Rightarrow> dtype \<Rightarrow> (cell, cell) user_row list \<Rightarrow> (cell, cell) cache_row list \<Rightarrow>
     py_error + (pyval, pyval) result" where
  "respond Dn Dy rows full_cache = bind_err (merged_typed Dn Dy rows full_cache) aggregate"

text \<open>
  What pandas does with a number beyond 2 to the power 53 (a \<^verbatim>\<open>float64\<close> column rounds it, the
  conversion to \<^verbatim>\<open>Int64\<close> at line 96 raises on some) is not described here: the request
  on files that hold such a number, and the write of a fetched id beyond the bound, are
  parameters of the request, and every statement below says where it relies on the bound.
\<close>

record big_numbers =
  big_request :: "(cell, cell) cache_row list \<Rightarrow> (cell, cell) upload_row list \<Rightarrow>
                    (pyval, pyval, cell, cell) outcome"
  big_write :: "(cell, cell) cache_row list \<Rightarrow> dtype \<Rightarrow> dtype \<Rightarrow> (cell, cell) user_row list \<Rightarrow>
                  (cell, cell) cache_row list \<Rightarrow>
                  (cell, cell) cache_row list \<times> (py_error + (pyval, pyval) result)"

text \<open>Lines 70 to 90: the fetches and the loop that builds \<^verbatim>\<open>new_rows\<close>.\<close>

definition new_rows_typed ::
  "(pyval, pyval) env \<Rightarrow> dtype \<Rightarrow> dtype \<Rightarrow> (cell, cell) user_row list \<Rightarrow> (cell, cell) cache_row list \<Rightarrow>
     py_error + (cell, cell) cache_row list" where
  "new_rows_typed e Dn Dy rows cache =
     (let rows_to_fetch = to_fetch_typed Dn Dy rows cache
      in new_rows_loop e (zip rows_to_fetch (api_results e (map (as_python Dn Dy) rows_to_fetch))))"

text \<open>
  The request from line 56 on, given the column types of the upload and the rows kept.
  An exception of the loop ends the request after the fetches and before the write.
\<close>

definition request_typed ::
  "(pyval, pyval) env \<Rightarrow> big_numbers \<Rightarrow> (cell, cell) cache_row list \<Rightarrow> dtype \<Rightarrow> dtype \<Rightarrow>
     (cell, cell) user_row list \<Rightarrow> (pyval, pyval, cell, cell) outcome" where
  "request_typed e big cache Dn Dy rows =
     (let rows_to_fetch = to_fetch_typed Dn Dy rows cache;
          calls = map (\<lambda>row. (pyval_of Dn (u_Name row), pyval_of Dy (u_Year row))) rows_to_fetch
      in if rows_to_fetch = []
         then \<lparr>fetch_log = [], cache_after = cache, response = respond Dn Dy rows cache\<rparr>
         else case new_rows_typed e Dn Dy rows cache of
                Inl err \<Rightarrow> \<lparr>fetch_log = calls, cache_after = cache, response = Inl err\<rparr>
              | Inr new_rows \<Rightarrow>
                  if list_all (\<lambda>c. small_id (c_TMDB_ID c)) new_rows
                  then \<lparr>fetch_log = calls,
                        cache_after = combined_cache Dn Dy cache new_rows,
                        response = respond Dn Dy rows (combined_cache Dn Dy cache new_rows)\<rparr>
                  else \<lparr>fetch_log = calls,
                        cache_after = fst (big_write big cache Dn Dy rows new_rows),
                        response = snd (big_write big cache Dn Dy rows new_rows)\<rparr>)"

text \<open>One request on an uploaded file and a cache file.\<close>

definition analyze_csv ::
  "(pyval, pyval) env \<Rightarrow> big_numbers \<Rightarrow> (cell, cell) cache_row list \<Rightarrow> (cell, cell) upload_row list \<Rightarrow>
     (pyval, pyval, cell, cell) outcome" where
  "analyze_csv e big cache upload =
     (if small_files cache upload
      then request_typed e big cache (name_dtype upload) (year_dtype upload) (kept_rows upload)
      else big_request big cache upload)"

text \<open>
  Two rows of the cache file that describe the same film: the same title, the same year
  as a number, and the same URI, id and directors.
\<close>

definition same_film :: "(cell, cell) cache_row \<Rightarrow> (cell, cell) cache_row \<Rightarrow> bool" where
  "same_film c c' =
     (cell_value (c_Name c') = cell_value (c_Name c) \<and> cell_value (c_Year c') = cell_value (c_Year c) \<and>
      c_URI c' = c_URI c \<and> c_TMDB_ID c' = c_TMDB_ID c \<and> c_Directors c' = c_Directors c)"

section \<open>Concrete inputs for the examples\<close>

definition demo_crew :: json where
  "demo_crew = JArr
     [JObj [(''job'', JStr ''Director''), (''name'', JStr ''Ada''), (''gender'', JInt 1)],
      JObj [(''job'', JStr ''Editor''), (''name'', JStr ''Bob''), (''gender'', JInt 2)],
      JObj [(''job'', JStr ''Director''), (''name'', JStr ''Cy''), (''gender'', JNull)]]"

definition demo_search :: json where
  "demo_search = JObj [(''page'', JInt 1), (''results'', JArr [JObj [(''id'', JInt 7)], JObj [(''id'', JInt 8)]])]"

definition demo_env :: "(string, int) env" where
  "demo_env = \<lparr>search_movie = (\<lambda>n y. Inr demo_search),
                movie_credits = (\<lambda>m. Inr (JObj [(''crew'', demo_crew)])),
                int_of_str = (\<lambda>s. None)\<rparr>"

definition demo_row :: "(string, int) user_row" where
  "demo_row = \<lparr>u_Name = ''Film'', u_Year = 2000, u_Rating = 4, u_URI = ''uri''\<rparr>"

definition demo_cache_row :: "(string, int) cache_row" where
  "demo_cache_row = \<lparr>c_Name = ''Film'', c_Year = 2000, c_URI = ''uri'', c_TMDB_ID = Some 7,
      c_Directors = [\<lparr>name = JStr ''Ada'', gender = ''Female''\<rparr>,
                     \<lparr>name = JStr ''Cy'', gender = ''Other''\<rparr>]\<rparr>"

definition demo_upload :: "(string option, int) upload_row" where
  "demo_upload = \<lparr>up_Name = Some ''Film'', up_Year = 2000, up_Rating = Numeric 4, up_URI = ''uri''\<rparr>"

definition demo_cache3 :: "(string, int) cache_row list" where
  "demo_cache3 =
     [\<lparr>c_Name = ''A'', c_Year = 2001, c_URI = ''a'', c_TMDB_ID = Some 1,
       c_Directors = [\<lparr>name = JStr ''Ada'', gender = ''Female''\<rparr>]\<rparr>,
      \<lparr>c_Name = ''B'', c_Year = 2002, c_URI = ''b'', c_TMDB_ID = Some 2,
       c_Directors = [\<lparr>name = JStr ''Bob'', gender = ''Other''\<rparr>]\<rparr>,
      \<lparr>c_Name = ''C'', c_Year = 2003, c_URI = ''c'', c_TMDB_ID = None,
       c_Directors = [\<lparr>name = JStr ''Ada'', gender = ''Female''\<rparr>]\<rparr>]"

definition demo_upload3 :: "(string option, int) upload_row list" where
  "demo_upload3 =
     [\<lparr>up_Name = Some ''A'', up_Year = 2001, up_Rating = Numeric 4, up_URI = ''ua''\<rparr>,
      \<lparr>up_Name = Some ''B'', up_Year = 2002, up_Rating = Numeric 3, up_URI = ''ub''\<rparr>,
      \<lparr>up_Name = Some ''C'', up_Year = 2003, up_Rating = Numeric 5, up_URI = ''uc''\<rparr>]"

definition demo_merged :: "(string, int) merged_row list" where
  "demo_merged =
     [\<lparr>m_Name = ''A'', m_Year = 2001, m_Rating = 4, m_URI = ''ua'', m_TMDB_ID = Some 1,
       m_Directors = [\<lparr>name = JStr ''Ada'', gender = ''Female''\<rparr>]\<rparr>,
      \<lparr>m_Name = ''B'', m_Year = 2002, m_Rating = 3, m_URI = ''ub'', m_TMDB_ID = Some 2,
       m_Directors = [\<lparr>name = JStr ''Bob'', gender = ''Other''\<rparr>]\<rparr>,
      \<lparr>m_Name = ''C'', m_Year = 2003, m_Rating = 5, m_URI = ''uc'', m_TMDB_ID = None,
       m_Directors = [\<lparr>name = JStr ''Ada'', gender = ''Female''\<rparr>]\<rparr>]"

text \<open>Files for the request on cells: a database that answers as \<open>demo_env\<close> does.\<close>

definition no_big :: big_numbers where
  "no_big = \<lparr>big_request = (\<lambda>cache upload. \<lparr>fetch_log = [], cache_after = cache, response = Inl ValueError\<rparr>),
             big_write = (\<lambda>cache Dn Dy rows new_rows. (cache, Inl ValueError))\<rparr>"

definition csv_env :: "(pyval, pyval) env" where
  "csv_env = \<lparr>search_movie = (\<lambda>n y. Inr demo_search),
               movie_credits = (\<lambda>m. Inr (JObj [(''crew'', demo_crew)])),
               int_of_str = (\<lambda>s. None)\<rparr>"

definition film_2000 :: "(cell, cell) cache_row" where
  "film_2000 = \<lparr>c_Name = TextCell ''Film'', c_Year = IntCell 2000, c_URI = ''uri'', c_TMDB_ID = Some 7,
      c_Directors = [\<lparr>name = JStr ''Ada'', gender = ''Female''\<rparr>,
                     \<lparr>name = JStr ''Cy'', gender = ''Other''\<rparr>]\<rparr>"

definition film_row :: "(cell, cell) upload_row" where
  "film_row = \<lparr>up_Name = TextCell ''Film'', up_Year = IntCell 2000, up_Rating = Numeric 4, up_URI = ''uri''\<rparr>"

definition nameless_row :: "(cell, cell) upload_row" where
  "nameless_row = \<lparr>up_Name = Empty, up_Year = Empty, up_Rating = Numeric 3, up_URI = ''uri2''\<rparr>"

definition yearless_row :: "(cell, cell) upload_row" where
  "yearless_row = \<lparr>up_Name = TextCell ''New'', up_Year = Empty, up_Rating = Numeric 3, up_URI = ''uri3''\<rparr>"

definition yearless_cached :: "(cell, cell) cache_row" where
  "yearless_cached = \<lparr>c_Name = TextCell ''Old'', c_Year = Empty, c_URI = ''uri0'', c_TMDB_ID = None, c_Directors = []\<rparr>"

definition film1_999 :: "(cell, cell) cache_row" where
  "film1_999 = \<lparr>c_Name = TextCell ''Film1'', c_Year = IntCell 999, c_URI = ''uri1'', c_TMDB_ID = Some 5, c_Directors = []\<rparr>"

definition film_1999_row :: "(cell, cell) upload_row" where
  "film_1999_row = \<lparr>up_Name = TextCell ''Film'', up_Year = IntCell 1999, up_Rating = Numeric 4, up_URI = ''uri''\<rparr>"

section \<open>The error monad\<close>

lemma bind_err_Inl [simp]: "bind_err (Inl e) f = Inl e"
  by (simp add: bind_err_def)

lemma bind_err_Inr [simp]: "bind_err (Inr x) f = f x"
  by (simp add: bind_err_def)

lemma bind_err_eq_Inr: "bind_err m f = Inr y \<longleftrightarrow> (\<exists>x. m = Inr x \<and> f x = Inr y)"
  by (cases m) simp_all

section \<open>Properties of the bucket loop\<close>

lemma directors_loop_tally:
  "female_director_list (directors_loop r ds b) =
     female_director_list b @ map name (filter is_female ds)"
  by (induction ds arbitrary: b) (simp_all add: is_female_def)

lemma directors_loop_female:
  "female_ratings (directors_loop r ds b) =
     female_ratings b @ map (\<lambda>d. r) (filter is_female ds)"
  by (induction ds arbitrary: b) (simp_all add: is_female_def)

lemma directors_loop_other:
  "other_ratings (directors_loop r ds b) =
     other_ratings b @ map (\<lambda>d. r) (filter (\<lambda>d. \<not> is_female d) ds)"
  by (induction ds arbitrary: b) (simp_all add: is_female_def)

lemma rows_loop_tally:
  "female_director_list (rows_loop rows b) =
     female_director_list b @
     concat (map (\<lambda>row. map name (filter is_female (m_Directors row))) rows)"
  by (induction rows arbitrary: b) (simp_all add: directors_loop_tally)

lemma rows_loop_female:
  "female_ratings (rows_loop rows b) =
     female_ratings b @
     concat (map (\<lambda>row. map (\<lambda>d. m_Rating row) (filter is_female (m_Directors row))) rows)"
  by (induction rows arbitrary: b) (simp_all add: directors_loop_female)

lemma rows_loop_other:
  "other_ratings (rows_loop rows b) =
     other_ratings b @
     concat (map (\<lambda>row. map (\<lambda>d. m_Rating row)
                   (filter (\<lambda>d. \<not> is_female d) (m_Directors row))) rows)"
  by (induction rows arbitrary: b) (simp_all add: directors_loop_other)

lemma two_female_codirectors:
  "rows_loop
     [\<lparr>m_Name = nm, m_Year = y, m_Rating = r, m_URI = u, m_TMDB_ID = t,
        m_Directors = [\<lparr>name = a, gender = ''Female''\<rparr>, \<lparr>name = b, gender = ''Female''\<rparr>]\<rparr>]
     empty_buckets
   = \<lparr>female_director_list = [a, b], female_ratings = [r, r], other_ratings = []\<rparr>"
  by (simp add: empty_buckets_def)

text \<open>
  C1. The loop over the merged rows, started from empty lists, leaves in the tally list
  the names of the Female directors, row by row and director by director; in the female
  bucket the row's rating once for each Female director of the row; and in the other
  bucket the row's rating once for each director of the row that is not Female. A row
  with no director adds nothing; a row with two Female directors adds its rating twice.
\<close>

theorem rows_loop_buckets:
  "female_director_list (rows_loop merged empty_buckets) =
     concat (map (\<lambda>row. map name (filter is_female (m_Directors row))) merged)
   \<and> female_ratings (rows_loop merged empty_buckets) =
     concat (map (\<lambda>row. map (\<lambda>d. m_Rating row) (filter is_female (m_Directors row))) merged)
   \<and> other_ratings (rows_loop merged empty_buckets) =
     concat (map (\<lambda>row. map (\<lambda>d. m_Rating row)
                   (filter (\<lambda>d. \<not> is_female d) (m_Directors row))) merged)"
  by (simp add: rows_loop_tally rows_loop_female rows_loop_other empty_buckets_def)

section \<open>Properties of the picks\<close>

lemma fold_max_Max: "fold max xs (a::real) = Max (set (a # xs))"
  by (rule Max.set_eq_fold[symmetric])

lemma top_female_picks_char:
  "top_female_picks merged =
     map render_pick
       (filter (\<lambda>r. list_ex is_female (m_Directors r) \<and>
                     m_Rating r = Max (m_Rating ` {r' \<in> set merged. list_ex is_female (m_Directors r')}))
          merged)"
proof (cases "female_directed_df merged")
  case Nil
  then have "\<forall>r \<in> set merged. \<not> list_ex is_female (m_Directors r)"
    by (auto simp: female_directed_df_def filter_empty_conv)
  then have "filter (\<lambda>r. list_ex is_female (m_Directors r) \<and>
                     m_Rating r = Max (m_Rating ` {r' \<in> set merged. list_ex is_female (m_Directors r')})) merged = []"
    by (auto simp: filter_empty_conv)
  with Nil show ?thesis by (simp add: top_female_picks_def)
next
  case (Cons row rows)
  have s: "set (row # rows) = {r' \<in> set merged. list_ex is_female (m_Directors r')}"
    unfolding Cons[symmetric] female_directed_df_def by auto
  have mx: "fold max (map m_Rating rows) (m_Rating row) =
             Max (m_Rating ` {r' \<in> set merged. list_ex is_female (m_Directors r')})"
  proof -
    have "fold max (map m_Rating rows) (m_Rating row) = Max (set (m_Rating row # map m_Rating rows))"
      by (rule fold_max_Max)
    also have "set (m_Rating row # map m_Rating rows) = m_Rating ` set (row # rows)" by simp
    finally show ?thesis unfolding s .
  qed
  have "filter (\<lambda>r. m_Rating r = fold max (map m_Rating rows) (m_Rating row)) (row # rows)
        = filter (\<lambda>r. list_ex is_female (m_Directors r) \<and>
                     m_Rating r = Max (m_Rating ` {r' \<in> set merged. list_ex is_female (m_Directors r')})) merged"
    unfolding Cons[symmetric] female_directed_df_def mx
    by (simp add: conj_commute)
  then show ?thesis
    unfolding top_female_picks_def Cons by (simp add: Let_def)
qed


section \<open>Properties of the fetcher\<close>

lemma directors_of_all_fields:
  "list_all2 (\<lambda>p (j, n, g). py_item p ''job'' = Inr j \<and> py_item p ''name'' = Inr n \<and>
                              py_item p ''gender'' = Inr g) ps members \<Longrightarrow>
   directors_of ps =
     Inr (map (\<lambda>(j, n, g). \<lparr>name = n, gender = (if py_eq_one g then ''Female'' else ''Other'')\<rparr>)
            (filter (\<lambda>(j, n, g). j = JStr ''Director'') members))"
  by (induction ps members rule: list_all2_induct) (auto simp: director_entry_def)

lemma directors_of_fails:
  "p \<in> set ps \<Longrightarrow> director_entry p = Inl err \<Longrightarrow> \<exists>err'. directors_of ps = Inl err'"
proof (induction ps)
  case Nil
  then show ?case by simp
next
  case (Cons q ps)
  show ?case
  proof (cases "director_entry q")
    case (Inl a)
    then show ?thesis by simp
  next
    case (Inr d)
    with Cons have "p \<in> set ps" by auto
    with Cons obtain err' where "directors_of ps = Inl err'" by blast
    with Inr show ?thesis by simp
  qed
qed

lemma get_movie_data_fail: "fetch_body e nm year = Inl err \<Longrightarrow> get_movie_data e nm year = (JNull, [])"
  by (simp add: get_movie_data_def)

lemma fetch_body_search_fail: "search_movie e nm year = Inl err \<Longrightarrow> fetch_body e nm year = Inl err"
  by (simp add: fetch_body_def)

lemma fetch_body_found:
  assumes "search_movie e nm year = Inr sr"
    and "py_get sr ''results'' JNull = Inr (JArr (first # rest))"
    and "py_item first ''id'' = Inr mid"
  shows "fetch_body e nm year =
     bind_err (movie_credits e mid)
       (\<lambda>credits_res. bind_err (py_get credits_res ''crew'' (JArr []))
          (\<lambda>crew. bind_err (py_iter crew)
             (\<lambda>ps. bind_err (directors_of ps) (\<lambda>directors. Inr (mid, directors)))))"
  using assms by (simp add: fetch_body_def)

lemma fetch_body_no_results:
  assumes "search_movie e nm year = Inr sr"
    and "py_get sr ''results'' JNull = Inr results" and "\<not> py_truthy results"
  shows "fetch_body e nm year = Inr (JNull, [])"
  using assms by (simp add: fetch_body_def)

lemma fetch_body_cong:
  assumes "search_movie e' nm year = search_movie e nm year" "movie_credits e' = movie_credits e"
  shows "fetch_body e' nm year = fetch_body e nm year"
  by (simp only: fetch_body_def assms)

lemma get_movie_data_cong:
  assumes "search_movie e' nm year = search_movie e nm year" "movie_credits e' = movie_credits e"
  shows "get_movie_data e' nm year = get_movie_data e nm year"
  by (simp only: get_movie_data_def fetch_body_cong[OF assms])

lemma api_results_isolated:
  "api_results (e\<lparr>search_movie := \<lambda>n y. if n = nm \<and> y = year then Inl err else search_movie e n y\<rparr>) rows
   = map (\<lambda>row. if u_Name row = nm \<and> u_Year row = year then (JNull, [])
                 else get_movie_data e (u_Name row) (u_Year row)) rows"
  unfolding api_results_def
proof (rule map_cong[OF refl])
  fix row
  let ?e' = "e\<lparr>search_movie := \<lambda>n y. if n = nm \<and> y = year then Inl err else search_movie e n y\<rparr>"
  show "get_movie_data ?e' (u_Name row) (u_Year row) =
        (if u_Name row = nm \<and> u_Year row = year then (JNull, [])
         else get_movie_data e (u_Name row) (u_Year row))"
  proof (cases "u_Name row = nm \<and> u_Year row = year")
    case True
    then have "search_movie ?e' (u_Name row) (u_Year row) = Inl err" by simp
    then have "fetch_body ?e' (u_Name row) (u_Year row) = Inl err" by (rule fetch_body_search_fail)
    then show ?thesis using True by (simp add: get_movie_data_def)
  next
    case False
    then have h: "get_movie_data ?e' (u_Name row) (u_Year row) = get_movie_data e (u_Name row) (u_Year row)"
      by (intro get_movie_data_cong) auto
    show ?thesis by (simp only: h False if_False)
  qed
qed

lemma demo_fetch: "get_movie_data demo_env ''Film'' 2000 =
   (JInt 7, [\<lparr>name = JStr ''Ada'', gender = ''Female''\<rparr>, \<lparr>name = JStr ''Cy'', gender = ''Other''\<rparr>])"
  by (simp add: get_movie_data_def fetch_body_def demo_env_def demo_search_def demo_crew_def
      dict_lookup_def director_entry_def)

lemma director_entry_fails:
  "(\<exists>err. director_entry p = Inl err) \<longleftrightarrow>
     (\<exists>err. py_item p ''job'' = Inl err) \<or>
     (py_item p ''job'' = Inr (JStr ''Director'') \<and>
        ((\<exists>err. py_item p ''name'' = Inl err) \<or> (\<exists>err. py_item p ''gender'' = Inl err)))"
  by (cases "py_item p ''job''"; cases "py_item p ''name''"; cases "py_item p ''gender''")
     (auto simp: director_entry_def)

text \<open>
  C3 (amended). Whenever a step of the fetch raises (the search request or the decoding of
  its body, a lookup on a search body of the wrong shape, the credits request, a lookup on
  a credits body of the wrong shape, or an entry of the crew without the fields it reads),
  \<open>get_movie_data\<close> returns \<open>(None, [])\<close> and nothing propagates. When no step raises
  the response is used as it stands, whatever its shape: the id is the first result's
  \<open>id\<close> and the directors are those of the crew, so a credits body without a crew gives
  the id and no director. In a batch, making the search for one film fail turns that
  film's result into \<open>(None, [])\<close> and leaves the result of every other row as it was.
\<close>

theorem get_movie_data_contains_failures:
  "(search_movie e nm year = Inl err \<longrightarrow> get_movie_data e nm year = (JNull, []))
   \<and> (search_movie e nm year = Inr sr \<longrightarrow>
       (py_get sr ''results'' JNull = Inl err \<longrightarrow> get_movie_data e nm year = (JNull, []))
     \<and> (py_get sr ''results'' JNull = Inr results \<and> py_truthy results \<longrightarrow>
         (py_index0 results = Inl err \<longrightarrow> get_movie_data e nm year = (JNull, []))
       \<and> (py_index0 results = Inr first \<longrightarrow>
           (py_item first ''id'' = Inl err \<longrightarrow> get_movie_data e nm year = (JNull, []))
         \<and> (py_item first ''id'' = Inr mid \<longrightarrow>
             (movie_credits e mid = Inl err \<longrightarrow> get_movie_data e nm year = (JNull, []))
           \<and> (movie_credits e mid = Inr cr \<longrightarrow>
               (py_get cr ''crew'' (JArr []) = Inl err \<longrightarrow> get_movie_data e nm year = (JNull, []))
             \<and> (py_get cr ''crew'' (JArr []) = Inr crew \<longrightarrow>
                 (py_iter crew = Inl err \<longrightarrow> get_movie_data e nm year = (JNull, []))
               \<and> (py_iter crew = Inr ps \<longrightarrow>
                   (directors_of ps = Inl err \<longrightarrow> get_movie_data e nm year = (JNull, []))
                 \<and> (directors_of ps = Inr ds \<longrightarrow> get_movie_data e nm year = (mid, ds)))))))))
   \<and> api_results
         (e\<lparr>search_movie := \<lambda>n y. if n = nm \<and> y = year then Inl err else search_movie e n y\<rparr>)
         rows
       = map (\<lambda>row. if u_Name row = nm \<and> u_Year row = year then (JNull, [])
                     else get_movie_data e (u_Name row) (u_Year row)) rows"
proof -
  have a: "search_movie e nm year = Inl err \<longrightarrow> get_movie_data e nm year = (JNull, [])"
    by (simp add: get_movie_data_def fetch_body_def)
  have b: "search_movie e nm year = Inr sr \<longrightarrow>
       (py_get sr ''results'' JNull = Inl err \<longrightarrow> get_movie_data e nm year = (JNull, []))
     \<and> (py_get sr ''results'' JNull = Inr results \<and> py_truthy results \<longrightarrow>
         (py_index0 results = Inl err \<longrightarrow> get_movie_data e nm year = (JNull, []))
       \<and> (py_index0 results = Inr first \<longrightarrow>
           (py_item first ''id'' = Inl err \<longrightarrow> get_movie_data e nm year = (JNull, []))
         \<and> (py_item first ''id'' = Inr mid \<longrightarrow>
             (movie_credits e mid = Inl err \<longrightarrow> get_movie_data e nm year = (JNull, []))
           \<and> (movie_credits e mid = Inr cr \<longrightarrow>
               (py_get cr ''crew'' (JArr []) = Inl err \<longrightarrow> get_movie_data e nm year = (JNull, []))
             \<and> (py_get cr ''crew'' (JArr []) = Inr crew \<longrightarrow>
                 (py_iter crew = Inl err \<longrightarrow> get_movie_data e nm year = (JNull, []))
               \<and> (py_iter crew = Inr ps \<longrightarrow>
                   (directors_of ps = Inl err \<longrightarrow> get_movie_data e nm year = (JNull, []))
                 \<and> (directors_of ps = Inr ds \<longrightarrow> get_movie_data e nm year = (mid, ds))))))))"
    by (simp add: get_movie_data_def fetch_body_def)
  show ?thesis by (intro conjI a b api_results_isolated)
qed

theorem get_movie_data_contains_failures_witness:
  "search_movie (demo_env\<lparr>search_movie := \<lambda>n y. Inl TimeoutError\<rparr>) ''Film'' 2000 = Inl TimeoutError
   \<and> get_movie_data (demo_env\<lparr>search_movie := \<lambda>n y. Inl TimeoutError\<rparr>) ''Film'' 2000 = (JNull, [])
   \<and> movie_credits (demo_env\<lparr>movie_credits := \<lambda>m. Inl NetworkError\<rparr>) (JInt 7) = Inl NetworkError
   \<and> get_movie_data (demo_env\<lparr>movie_credits := \<lambda>m. Inl NetworkError\<rparr>) ''Film'' 2000 = (JNull, [])
   \<and> get_movie_data (demo_env\<lparr>movie_credits := \<lambda>m. Inr (JObj [(''success'', JBool False)])\<rparr>)
        ''Film'' 2000 = (JInt 7, [])
   \<and> api_results
        (demo_env\<lparr>search_movie := \<lambda>n y. if n = ''Film'' \<and> y = 2000 then Inl TimeoutError
                                         else search_movie demo_env n y\<rparr>)
        [demo_row, demo_row\<lparr>u_Name := ''Other film''\<rparr>]
      = [(JNull, []),
         (JInt 7, [\<lparr>name = JStr ''Ada'', gender = ''Female''\<rparr>,
                   \<lparr>name = JStr ''Cy'', gender = ''Other''\<rparr>])]"
proof -
  let ?e1 = "demo_env\<lparr>search_movie := \<lambda>n y. Inl TimeoutError\<rparr>"
  let ?e2 = "demo_env\<lparr>movie_credits := \<lambda>m. Inl NetworkError\<rparr>"
  let ?e3 = "demo_env\<lparr>movie_credits := \<lambda>m. Inr (JObj [(''success'', JBool False)])\<rparr>"
  let ?first = "JObj [(''id'', JInt 7)]"
  let ?results = "JArr [?first, JObj [(''id'', JInt 8)]]"
  have s1: "search_movie ?e1 ''Film'' 2000 = Inl TimeoutError" by simp
  have c2: "movie_credits ?e2 (JInt 7) = Inl NetworkError" by simp
  have s2: "search_movie ?e2 ''Film'' 2000 = Inr demo_search" by (simp add: demo_env_def)
  have s3: "search_movie ?e3 ''Film'' 2000 = Inr demo_search" by (simp add: demo_env_def)
  have r: "py_get demo_search ''results'' JNull = Inr ?results \<and> py_truthy ?results"
    by (simp add: demo_search_def dict_lookup_def)
  have i: "py_index0 ?results = Inr ?first" by simp
  have m: "py_item ?first ''id'' = Inr (JInt 7)" by (simp add: dict_lookup_def)
  have c3: "movie_credits ?e3 (JInt 7) = Inr (JObj [(''success'', JBool False)])" by simp
  have g3: "py_get (JObj [(''success'', JBool False)]) ''crew'' (JArr []) = Inr (JArr [])"
    by (simp add: dict_lookup_def)
  have p3: "py_iter (JArr []) = Inr []" "directors_of [] = Inr []" by simp_all
  have other: "get_movie_data demo_env ''Other film'' 2000 =
     (JInt 7, [\<lparr>name = JStr ''Ada'', gender = ''Female''\<rparr>, \<lparr>name = JStr ''Cy'', gender = ''Other''\<rparr>])"
    by (simp add: get_movie_data_def fetch_body_def demo_env_def demo_search_def demo_crew_def
        dict_lookup_def director_entry_def)
  from get_movie_data_contains_failures[of ?e1 "''Film''" 2000 TimeoutError]
  have a: "get_movie_data ?e1 ''Film'' 2000 = (JNull, [])" using s1 by blast
  from get_movie_data_contains_failures[of ?e2 "''Film''" 2000 NetworkError demo_search ?results ?first "JInt 7"]
  have b: "get_movie_data ?e2 ''Film'' 2000 = (JNull, [])" using s2 r i m c2 by blast
  from get_movie_data_contains_failures[of ?e3 "''Film''" 2000 _ demo_search ?results ?first "JInt 7"
      "JObj [(''success'', JBool False)]" "JArr []" "[]" "[]"]
  have c: "get_movie_data ?e3 ''Film'' 2000 = (JInt 7, [])" using s3 r i m c3 g3 p3 by blast
  from get_movie_data_contains_failures[of demo_env "''Film''" 2000 TimeoutError _ _ _ _ _ _ _ _
      "[demo_row, demo_row\<lparr>u_Name := ''Other film''\<rparr>]"]
  have d: "api_results
        (demo_env\<lparr>search_movie := \<lambda>n y. if n = ''Film'' \<and> y = 2000 then Inl TimeoutError
                                         else search_movie demo_env n y\<rparr>)
        [demo_row, demo_row\<lparr>u_Name := ''Other film''\<rparr>]
      = [(JNull, []),
         (JInt 7, [\<lparr>name = JStr ''Ada'', gender = ''Female''\<rparr>,
                   \<lparr>name = JStr ''Cy'', gender = ''Other''\<rparr>])]"
    by (simp add: demo_row_def other)
  from s1 a c2 b c d show ?thesis by (intro conjI)
qed

theorem malformed_response_counterexample:
  "get_movie_data (demo_env\<lparr>movie_credits := \<lambda>m. Inr (JObj [(''success'', JBool False)])\<rparr>)
     ''Film'' 2000 \<noteq> (JNull, [])
   \<and> api_results
        (demo_env\<lparr>search_movie := \<lambda>n y. if n = ''Film'' then
             Inr (JObj [(''results'', JArr [JObj [(''id'', JStr ''tt7'')]])]) else search_movie demo_env n y\<rparr>)
        [demo_row\<lparr>u_Name := ''Other film''\<rparr>, demo_row]
      = [(JInt 7, [\<lparr>name = JStr ''Ada'', gender = ''Female''\<rparr>,
                   \<lparr>name = JStr ''Cy'', gender = ''Other''\<rparr>]),
         (JStr ''tt7'', [\<lparr>name = JStr ''Ada'', gender = ''Female''\<rparr>,
                   \<lparr>name = JStr ''Cy'', gender = ''Other''\<rparr>])]
   \<and> new_rows_loop
        (demo_env\<lparr>search_movie := \<lambda>n y. if n = ''Film'' then
             Inr (JObj [(''results'', JArr [JObj [(''id'', JStr ''tt7'')]])]) else search_movie demo_env n y\<rparr>)
        (zip [demo_row\<lparr>u_Name := ''Other film''\<rparr>, demo_row]
           (api_results
              (demo_env\<lparr>search_movie := \<lambda>n y. if n = ''Film'' then
                  Inr (JObj [(''results'', JArr [JObj [(''id'', JStr ''tt7'')]])]) else search_movie demo_env n y\<rparr>)
              [demo_row\<lparr>u_Name := ''Other film''\<rparr>, demo_row]))
      = Inl ValueError"
  by (simp add: get_movie_data_def fetch_body_def demo_env_def demo_search_def demo_crew_def
      dict_lookup_def director_entry_def api_results_def demo_row_def new_row_def tmdb_id_cell_def)

lemma directors_of_wellformed:
  assumes "\<forall>p \<in> set ps. \<exists>j. py_item p ''job'' = Inr j \<and>
             (j = JStr ''Director'' \<longrightarrow> (\<exists>n g. py_item p ''name'' = Inr n \<and> py_item p ''gender'' = Inr g))"
  shows "\<exists>ds. directors_of ps = Inr ds \<and>
           list_all2 (\<lambda>p d. py_item p ''name'' = Inr (name d) \<and>
                        (\<exists>g. py_item p ''gender'' = Inr g \<and>
                              gender d = (if py_eq_one g then ''Female'' else ''Other'')))
             (filter (\<lambda>p. py_item p ''job'' = Inr (JStr ''Director'')) ps) ds"
  using assms
proof (induction ps)
  case Nil
  then show ?case by simp
next
  case (Cons p ps)
  then obtain ds where ds: "directors_of ps = Inr ds"
    and l: "list_all2 (\<lambda>p d. py_item p ''name'' = Inr (name d) \<and>
                        (\<exists>g. py_item p ''gender'' = Inr g \<and>
                              gender d = (if py_eq_one g then ''Female'' else ''Other'')))
             (filter (\<lambda>p. py_item p ''job'' = Inr (JStr ''Director'')) ps) ds"
    by auto
  from Cons.prems obtain j where j: "py_item p ''job'' = Inr j"
    and d: "j = JStr ''Director'' \<longrightarrow> (\<exists>n g. py_item p ''name'' = Inr n \<and> py_item p ''gender'' = Inr g)"
    by auto
  show ?case
  proof (cases "j = JStr ''Director''")
    case True
    with d obtain n g where "py_item p ''name'' = Inr n" "py_item p ''gender'' = Inr g" by blast
    with j True ds l show ?thesis by (simp add: director_entry_def)
  next
    case False
    with j ds l show ?thesis by (simp add: director_entry_def)
  qed
qed

text \<open>
  C4 (amended). A search with no result gives \<open>(None, [])\<close>. With a first result whose id
  is read and a credits body whose crew is a list: when every crew entry has a job field
  and every entry whose job is "Director" has a name and a gender field, the external id
  is the first result's id and the directors are exactly the entries whose job is
  "Director", in order, each with its name, Female when its gender code equals 1 and Other
  for every other code (also a null code); when some crew entry has no job field, or some
  Director entry has no name or no gender field, the whole fetch returns \<open>(None, [])\<close>.
\<close>

theorem get_movie_data_directors:
  assumes "search_movie e nm year = Inr sr"
  shows "(py_get sr ''results'' JNull = Inr (JArr []) \<longrightarrow> get_movie_data e nm year = (JNull, []))
   \<and> (py_get sr ''results'' JNull = Inr (JArr (first # rest)) \<and> py_item first ''id'' = Inr mid \<and>
        movie_credits e mid = Inr cr \<and> py_get cr ''crew'' (JArr []) = Inr (JArr ps) \<longrightarrow>
        ((\<forall>p \<in> set ps. \<exists>j. py_item p ''job'' = Inr j \<and>
              (j = JStr ''Director'' \<longrightarrow>
                 (\<exists>n g. py_item p ''name'' = Inr n \<and> py_item p ''gender'' = Inr g))) \<longrightarrow>
           fst (get_movie_data e nm year) = mid \<and>
           list_all2 (\<lambda>p d. py_item p ''name'' = Inr (name d) \<and>
                        (\<exists>g. py_item p ''gender'' = Inr g \<and>
                              gender d = (if py_eq_one g then ''Female'' else ''Other'')))
             (filter (\<lambda>p. py_item p ''job'' = Inr (JStr ''Director'')) ps)
             (snd (get_movie_data e nm year)))
        \<and> ((\<exists>p \<in> set ps. (\<exists>err. py_item p ''job'' = Inl err) \<or>
               (py_item p ''job'' = Inr (JStr ''Director'') \<and>
                  ((\<exists>err. py_item p ''name'' = Inl err) \<or> (\<exists>err. py_item p ''gender'' = Inl err))))
             \<longrightarrow> get_movie_data e nm year = (JNull, [])))
   \<and> (py_eq_one (JInt c) \<longleftrightarrow> c = 1) \<and> \<not> py_eq_one JNull"
proof (intro conjI impI)
  show "get_movie_data e nm year = (JNull, [])" if "py_get sr ''results'' JNull = Inr (JArr [])"
    using fetch_body_no_results[OF assms that] by (simp add: get_movie_data_def)
  show "py_eq_one (JInt c) \<longleftrightarrow> c = 1" by simp
  show "\<not> py_eq_one JNull" by simp
next
  assume h: "py_get sr ''results'' JNull = Inr (JArr (first # rest)) \<and> py_item first ''id'' = Inr mid \<and>
        movie_credits e mid = Inr cr \<and> py_get cr ''crew'' (JArr []) = Inr (JArr ps)"
  then have fb: "fetch_body e nm year = bind_err (directors_of ps) (\<lambda>directors. Inr (mid, directors))"
    by (simp add: fetch_body_found[OF assms, of first rest mid])
  {
    assume "\<forall>p \<in> set ps. \<exists>j. py_item p ''job'' = Inr j \<and>
              (j = JStr ''Director'' \<longrightarrow>
                 (\<exists>n g. py_item p ''name'' = Inr n \<and> py_item p ''gender'' = Inr g))"
    from directors_of_wellformed[OF this] obtain ds where ds: "directors_of ps = Inr ds"
      and l: "list_all2 (\<lambda>p d. py_item p ''name'' = Inr (name d) \<and>
                        (\<exists>g. py_item p ''gender'' = Inr g \<and>
                              gender d = (if py_eq_one g then ''Female'' else ''Other'')))
             (filter (\<lambda>p. py_item p ''job'' = Inr (JStr ''Director'')) ps) ds"
      by blast
    from fb ds have g: "get_movie_data e nm year = (mid, ds)" by (simp add: get_movie_data_def)
    show "fst (get_movie_data e nm year) = mid" by (simp add: g)
    show "list_all2 (\<lambda>p d. py_item p ''name'' = Inr (name d) \<and>
                        (\<exists>g. py_item p ''gender'' = Inr g \<and>
                              gender d = (if py_eq_one g then ''Female'' else ''Other'')))
             (filter (\<lambda>p. py_item p ''job'' = Inr (JStr ''Director'')) ps)
             (snd (get_movie_data e nm year))"
      using l by (simp add: g)
  }
  {
    assume "\<exists>p \<in> set ps. (\<exists>err. py_item p ''job'' = Inl err) \<or>
               (py_item p ''job'' = Inr (JStr ''Director'') \<and>
                  ((\<exists>err. py_item p ''name'' = Inl err) \<or> (\<exists>err. py_item p ''gender'' = Inl err)))"
    then obtain p err where "p \<in> set ps" "director_entry p = Inl err"
      using director_entry_fails by blast
    from directors_of_fails[OF this] fb obtain err' where "fetch_body e nm year = Inl err'"
      by auto
    then show "get_movie_data e nm year = (JNull, [])" by (rule get_movie_data_fail)
  }
qed

theorem get_movie_data_directors_witness:
  "get_movie_data demo_env ''Film'' 2000 =
     (JInt 7, [\<lparr>name = JStr ''Ada'', gender = ''Female''\<rparr>, \<lparr>name = JStr ''Cy'', gender = ''Other''\<rparr>])
   \<and> get_movie_data (demo_env\<lparr>search_movie := \<lambda>n y. Inr (JObj [(''results'', JArr [])])\<rparr>)
        ''Film'' 2000 = (JNull, [])
   \<and> get_movie_data
        (demo_env\<lparr>movie_credits := \<lambda>m. Inr (JObj [(''crew'', JArr [JObj [(''job'', JStr ''Editor'')]])])\<rparr>)
        ''Film'' 2000 = (JInt 7, [])
   \<and> get_movie_data
        (demo_env\<lparr>movie_credits := \<lambda>m. Inr (JObj [(''crew'',
            JArr [JObj [(''job'', JStr ''Director''), (''name'', JStr ''Ada'')]])])\<rparr>)
        ''Film'' 2000 = (JNull, [])"
proof -
  let ?first = "JObj [(''id'', JInt 7)]"
  let ?rest = "[JObj [(''id'', JInt 8)]]"
  let ?e0 = "demo_env\<lparr>search_movie := \<lambda>n y. Inr (JObj [(''results'', JArr [])])\<rparr>"
  let ?p = "JObj [(''job'', JStr ''Director''), (''name'', JStr ''Ada'')]"
  let ?e2 = "demo_env\<lparr>movie_credits := \<lambda>m. Inr (JObj [(''crew'', JArr [?p])])\<rparr>"
  let ?q = "JObj [(''job'', JStr ''Editor'')]"
  let ?e3 = "demo_env\<lparr>movie_credits := \<lambda>m. Inr (JObj [(''crew'', JArr [?q])])\<rparr>"
  let ?ps = "[JObj [(''job'', JStr ''Director''), (''name'', JStr ''Ada''), (''gender'', JInt 1)],
              JObj [(''job'', JStr ''Editor''), (''name'', JStr ''Bob''), (''gender'', JInt 2)],
              JObj [(''job'', JStr ''Director''), (''name'', JStr ''Cy''), (''gender'', JNull)]]"
  have s: "search_movie demo_env ''Film'' 2000 = Inr demo_search" by (simp add: demo_env_def)
  have r: "py_get demo_search ''results'' JNull = Inr (JArr (?first # ?rest)) \<and>
           py_item ?first ''id'' = Inr (JInt 7) \<and>
           movie_credits demo_env (JInt 7) = Inr (JObj [(''crew'', demo_crew)]) \<and>
           py_get (JObj [(''crew'', demo_crew)]) ''crew'' (JArr []) = Inr (JArr ?ps)"
    by (simp add: demo_env_def demo_search_def demo_crew_def dict_lookup_def)
  have w: "\<forall>p \<in> set ?ps. \<exists>j. py_item p ''job'' = Inr j \<and>
              (j = JStr ''Director'' \<longrightarrow>
                 (\<exists>n g. py_item p ''name'' = Inr n \<and> py_item p ''gender'' = Inr g))"
    by (simp add: dict_lookup_def)
  from get_movie_data_directors[OF s, of ?first ?rest "JInt 7" "JObj [(''crew'', demo_crew)]" ?ps] r w
  have a1: "fst (get_movie_data demo_env ''Film'' 2000) = JInt 7 \<and>
           list_all2 (\<lambda>p d. py_item p ''name'' = Inr (name d) \<and>
                        (\<exists>g. py_item p ''gender'' = Inr g \<and>
                              gender d = (if py_eq_one g then ''Female'' else ''Other'')))
             (filter (\<lambda>p. py_item p ''job'' = Inr (JStr ''Director'')) ?ps)
             (snd (get_movie_data demo_env ''Film'' 2000))"
    by blast
  have a: "get_movie_data demo_env ''Film'' 2000 =
     (JInt 7, [\<lparr>name = JStr ''Ada'', gender = ''Female''\<rparr>, \<lparr>name = JStr ''Cy'', gender = ''Other''\<rparr>])"
    using a1 by (simp add: demo_fetch)
  have s0: "search_movie ?e0 ''Film'' 2000 = Inr (JObj [(''results'', JArr [])])" by simp
  have r0: "py_get (JObj [(''results'', JArr [])]) ''results'' JNull = Inr (JArr [])"
    by (simp add: dict_lookup_def)
  from get_movie_data_directors[OF s0] r0
  have b: "get_movie_data ?e0 ''Film'' 2000 = (JNull, [])" by blast
  have s2: "search_movie ?e2 ''Film'' 2000 = Inr demo_search" by (simp add: demo_env_def)
  have r2: "py_get demo_search ''results'' JNull = Inr (JArr (?first # ?rest)) \<and>
           py_item ?first ''id'' = Inr (JInt 7) \<and>
           movie_credits ?e2 (JInt 7) = Inr (JObj [(''crew'', JArr [?p])]) \<and>
           py_get (JObj [(''crew'', JArr [?p])]) ''crew'' (JArr []) = Inr (JArr [?p])"
    by (simp add: demo_search_def dict_lookup_def)
  have g2: "\<exists>p \<in> set [?p]. (\<exists>err. py_item p ''job'' = Inl err) \<or>
               (py_item p ''job'' = Inr (JStr ''Director'') \<and>
                  ((\<exists>err. py_item p ''name'' = Inl err) \<or> (\<exists>err. py_item p ''gender'' = Inl err)))"
    by (simp add: dict_lookup_def)
  from get_movie_data_directors[OF s2, of ?first ?rest "JInt 7" "JObj [(''crew'', JArr [?p])]" "[?p]"] r2 g2
  have c: "get_movie_data ?e2 ''Film'' 2000 = (JNull, [])" by blast
  have s3: "search_movie ?e3 ''Film'' 2000 = Inr demo_search" by (simp add: demo_env_def)
  have r3: "py_get demo_search ''results'' JNull = Inr (JArr (?first # ?rest)) \<and>
           py_item ?first ''id'' = Inr (JInt 7) \<and>
           movie_credits ?e3 (JInt 7) = Inr (JObj [(''crew'', JArr [?q])]) \<and>
           py_get (JObj [(''crew'', JArr [?q])]) ''crew'' (JArr []) = Inr (JArr [?q])"
    by (simp add: demo_search_def dict_lookup_def)
  have w3: "\<forall>p \<in> set [?q]. \<exists>j. py_item p ''job'' = Inr j \<and>
              (j = JStr ''Director'' \<longrightarrow>
                 (\<exists>n g. py_item p ''name'' = Inr n \<and> py_item p ''gender'' = Inr g))"
    by (simp add: dict_lookup_def)
  from get_movie_data_directors[OF s3, of ?first ?rest "JInt 7" "JObj [(''crew'', JArr [?q])]" "[?q]"] r3 w3
  have d1: "fst (get_movie_data ?e3 ''Film'' 2000) = JInt 7 \<and>
           list_all2 (\<lambda>p d. py_item p ''name'' = Inr (name d) \<and>
                        (\<exists>g. py_item p ''gender'' = Inr g \<and>
                              gender d = (if py_eq_one g then ''Female'' else ''Other'')))
             (filter (\<lambda>p. py_item p ''job'' = Inr (JStr ''Director'')) [?q])
             (snd (get_movie_data ?e3 ''Film'' 2000))"
    by blast
  then have d: "get_movie_data ?e3 ''Film'' 2000 = (JInt 7, [])"
    by (cases "get_movie_data ?e3 ''Film'' 2000") (simp add: dict_lookup_def)
  from a b d c show ?thesis by (intro conjI)
qed

theorem missing_gender_counterexample:
  "get_movie_data
     (demo_env\<lparr>movie_credits := \<lambda>m. Inr (JObj [(''crew'',
         JArr [JObj [(''job'', JStr ''Director''), (''name'', JStr ''Ada'')]])])\<rparr>)
     ''Film'' 2000
   \<noteq> (JInt 7, [\<lparr>name = JStr ''Ada'', gender = ''Other''\<rparr>])
   \<and> get_movie_data
     (demo_env\<lparr>movie_credits := \<lambda>m. Inr (JObj [(''crew'',
         JArr [JObj [(''job'', JStr ''Director''), (''name'', JStr ''Ada'')]])])\<rparr>)
     ''Film'' 2000 = (JNull, [])"
  by (simp add: get_movie_data_def fetch_body_def demo_env_def demo_search_def
      dict_lookup_def director_entry_def)

section \<open>Properties of the orchestrator\<close>

lemma new_row_Inr:
  "new_row e row m ds = Inr c \<Longrightarrow>
     c_Name c = u_Name row \<and> c_Year c = u_Year row \<and> c_URI c = u_URI row \<and>
     c_Directors c = ds \<and> tmdb_id_cell e m = Inr (c_TMDB_ID c)"
  by (auto simp: new_row_def bind_err_eq_Inr)

lemma new_rows_loop_Inr:
  "new_rows_loop e xs = Inr rows \<Longrightarrow>
     list_all2 (\<lambda>(row, m, ds) c. new_row e row m ds = Inr c) xs rows"
proof (induction xs arbitrary: rows)
  case Nil
  then show ?case by simp
next
  case (Cons x xs)
  obtain row m ds where x: "x = (row, m, ds)" by (cases x) auto
  from Cons.prems obtain c cs where c: "new_row e row m ds = Inr c"
    and cs: "new_rows_loop e xs = Inr cs" and rows: "rows = c # cs"
    unfolding x by (auto simp: bind_err_eq_Inr)
  from Cons.IH[OF cs] c show ?case unfolding x rows by simp
qed

lemma count_fetch_calls:
  "count_list (fetch_calls cache df_user) (n, y) =
     (if n @ py_str_int y \<in> set (map cache_key cache) then 0
      else length (filter (\<lambda>row. u_Name row = n \<and> u_Year row = y) df_user))"
proof (induction df_user)
  case Nil
  then show ?case by (simp add: fetch_calls_def to_fetch_def)
next
  case (Cons row rows)
  then show ?case
    by (auto simp: fetch_calls_def to_fetch_def user_key_def)
qed

lemma merge_frames_from_cache:
  "r \<in> set (merge_frames df_user full_cache) \<Longrightarrow>
     \<exists>c \<in> set full_cache. c_Name c = m_Name r \<and> c_Year c = m_Year r \<and>
        c_TMDB_ID c = m_TMDB_ID r \<and> c_Directors c = m_Directors r"
  by (auto simp: merge_frames_def join_row_def)

lemma fetch_log_analyze:
  "fetch_log (analyze_letterboxd e cache upload) = fetch_calls cache (load_and_clean upload)"
  by (simp add: analyze_letterboxd_def Let_def split: sum.splits)

lemma cache_after_analyze:
  "cache_after (analyze_letterboxd e cache upload) =
     (case enrich e cache (load_and_clean upload) of Inl err \<Rightarrow> cache | Inr full_cache \<Rightarrow> full_cache)"
  by (simp add: analyze_letterboxd_def Let_def split: sum.splits)

lemma response_analyze:
  "response (analyze_letterboxd e cache upload) =
     (case enrich e cache (load_and_clean upload) of
        Inl err \<Rightarrow> Inl err
      | Inr full_cache \<Rightarrow> aggregate (merge_frames (load_and_clean upload) full_cache))"
  by (simp add: analyze_letterboxd_def Let_def split: sum.splits)

text \<open>
  C2 (amended). The fetcher is called once for each user row whose key (the name followed
  by the year, as one string) is not among the keys of the cache: the number of calls for
  a name and a year is the number of user rows with that name and year when the key is
  absent, and zero when it is present. Rows are not deduplicated.
\<close>

theorem fetch_log_per_row:
  "count_list (fetch_log (analyze_letterboxd e cache upload)) (n, y) =
     (if n @ py_str_int y \<in> set (map cache_key cache) then 0
      else length (filter (\<lambda>row. u_Name row = n \<and> u_Year row = y) (load_and_clean upload)))
   \<and> length (fetch_log (analyze_letterboxd e cache upload)) =
       length (filter (\<lambda>row. u_Name row @ py_str_int (u_Year row) \<notin> set (map cache_key cache))
                 (load_and_clean upload))"
proof -
  show ?thesis
    by (simp add: fetch_log_analyze count_fetch_calls) (simp add: fetch_calls_def to_fetch_def user_key_def)
qed

theorem two_rows_two_fetches_counterexample:
  "fetch_log (analyze_letterboxd demo_env [] [demo_upload, demo_upload])
     = [(''Film'', 2000), (''Film'', 2000)]"
  by (simp add: fetch_log_analyze load_and_clean_def List.map_filter_def clean_row_def
      demo_upload_def fetch_calls_def to_fetch_def)

section \<open>Properties of the response\<close>

lemma aggregate_Inr:
  "aggregate merged = Inr res \<Longrightarrow>
     female_avg res = py_mean (female_ratings (rows_loop merged empty_buckets)) \<and>
     other_avg res = py_mean (other_ratings (rows_loop merged empty_buckets)) \<and>
     best_rated_female_directed res = top_female_picks merged"
  by (auto simp: aggregate_def Let_def bind_err_eq_Inr)

lemma demo_load3:
  "load_and_clean demo_upload3 =
     [\<lparr>u_Name = ''A'', u_Year = 2001, u_Rating = 4, u_URI = ''ua''\<rparr>,
      \<lparr>u_Name = ''B'', u_Year = 2002, u_Rating = 3, u_URI = ''ub''\<rparr>,
      \<lparr>u_Name = ''C'', u_Year = 2003, u_Rating = 5, u_URI = ''uc''\<rparr>]"
  by (simp add: load_and_clean_def List.map_filter_def clean_row_def demo_upload3_def)

lemma demo_keys: "py_str_int 2001 = ''2001''" "py_str_int 2002 = ''2002''" "py_str_int 2003 = ''2003''"
  by (simp_all add: py_str_int_def digits_of_nat.simps)

lemma demo_enrich3: "enrich e demo_cache3 (load_and_clean demo_upload3) = Inr demo_cache3"
  by (simp add: demo_load3 enrich_def to_fetch_def demo_cache3_def user_key_def cache_key_def demo_keys)

lemma demo_merge3: "merge_frames (load_and_clean demo_upload3) demo_cache3 = demo_merged"
  by (simp add: demo_load3 merge_frames_def demo_cache3_def join_row_def demo_merged_def)

lemma demo_aggregate:
  "aggregate demo_merged =
     Inr \<lparr>female_avg = 9 / 2, other_avg = 3,
          most_watched_female_director = Some (JStr ''Ada'', 2),
          best_rated_female_directed =
            [\<lparr>p_Name = ''C'', p_Year = 2003, p_TMDB_ID = 0, p_Rating = 5, p_URI = ''uc''\<rparr>]\<rparr>"
  by (simp add: aggregate_def demo_merged_def empty_buckets_def py_mean_def top_director_data_def
      top_female_picks_def female_directed_df_def is_female_def render_pick_def)



text \<open>
  C6. In a response, the best rated films are exactly the merged rows that have a Female
  director and whose rating is the maximum over such rows, in order. A pick shows the
  external id of its row, and 0 when that id is null; the row of the cache the pick was
  joined from keeps the id as it is (null stays null).
\<close>

theorem top_female_picks_exact:
  assumes "response (analyze_letterboxd e cache upload) = Inr res"
  shows "best_rated_female_directed res =
       map render_pick
         (filter (\<lambda>r. list_ex is_female (m_Directors r) \<and>
                       m_Rating r =
                         Max (m_Rating `
                           {r' \<in> set (merge_frames (load_and_clean upload)
                                          (cache_after (analyze_letterboxd e cache upload))).
                              list_ex is_female (m_Directors r')}))
            (merge_frames (load_and_clean upload) (cache_after (analyze_letterboxd e cache upload))))
     \<and> (\<forall>r \<in> set (merge_frames (load_and_clean upload)
                      (cache_after (analyze_letterboxd e cache upload))).
          p_TMDB_ID (render_pick r) = (case m_TMDB_ID r of None \<Rightarrow> 0 | Some i \<Rightarrow> i)
          \<and> (\<exists>c \<in> set (cache_after (analyze_letterboxd e cache upload)).
                c_Name c = m_Name r \<and> c_Year c = m_Year r \<and>
                c_TMDB_ID c = m_TMDB_ID r \<and> c_Directors c = m_Directors r))"
proof -
  from assms obtain full_cache where en: "enrich e cache (load_and_clean upload) = Inr full_cache"
    and ag: "aggregate (merge_frames (load_and_clean upload) full_cache) = Inr res"
    by (auto simp: response_analyze split: sum.splits)
  have ca: "cache_after (analyze_letterboxd e cache upload) = full_cache"
    by (simp add: cache_after_analyze en)
  from aggregate_Inr[OF ag]
  have "best_rated_female_directed res = top_female_picks (merge_frames (load_and_clean upload) full_cache)"
    by simp
  then show ?thesis
    unfolding ca top_female_picks_char
    by (auto simp: render_pick_def dest: merge_frames_from_cache)
qed

theorem top_female_picks_exact_witness:
  "response (analyze_letterboxd demo_env demo_cache3 demo_upload3) =
     Inr \<lparr>female_avg = 9 / 2, other_avg = 3,
          most_watched_female_director = Some (JStr ''Ada'', 2),
          best_rated_female_directed =
            [\<lparr>p_Name = ''C'', p_Year = 2003, p_TMDB_ID = 0, p_Rating = 5, p_URI = ''uc''\<rparr>]\<rparr>
   \<and> cache_after (analyze_letterboxd demo_env demo_cache3 demo_upload3) = demo_cache3
   \<and> c_TMDB_ID (demo_cache3 ! 2) = None
   \<and> merge_frames (load_and_clean demo_upload3) demo_cache3 = demo_merged"
proof -
  have r: "response (analyze_letterboxd demo_env demo_cache3 demo_upload3) =
     Inr \<lparr>female_avg = 9 / 2, other_avg = 3,
          most_watched_female_director = Some (JStr ''Ada'', 2),
          best_rated_female_directed =
            [\<lparr>p_Name = ''C'', p_Year = 2003, p_TMDB_ID = 0, p_Rating = 5, p_URI = ''uc''\<rparr>]\<rparr>"
    by (simp add: response_analyze demo_enrich3 demo_merge3 demo_aggregate)
  have c: "cache_after (analyze_letterboxd demo_env demo_cache3 demo_upload3) = demo_cache3"
    by (simp add: cache_after_analyze demo_enrich3)
  have n: "c_TMDB_ID (demo_cache3 ! 2) = None" by (simp add: demo_cache3_def)
  from top_female_picks_exact[OF r] r c n demo_merge3 show ?thesis by simp
qed

section \<open>Properties of the request on the CSV files\<close>

subsection \<open>Cells and column types\<close>

lemma floatify_idem [simp]: "floatify (floatify c) = floatify c"
  by (cases c) simp_all

lemma cell_value_floatify [simp]: "cell_value (floatify c) = cell_value c"
  by (cases c) simp_all

lemma cell_value_held [simp]: "cell_value (held D c) = cell_value c"
  by (simp add: held_def)

lemma small_cell_floatify [simp]: "small_cell (floatify c) = small_cell c"
  by (cases c) simp_all

lemma small_cell_held [simp]: "small_cell (held D c) = small_cell c"
  by (simp add: held_def)

lemma held_thrice:
  "D = Float64 \<or> D' \<noteq> Float64 \<or> \<not> is_int_cell c \<Longrightarrow> held D (held D' (held D c)) = held D c"
  by (cases c) (auto simp: held_def)

lemma combined_dtype_old:
  "old \<noteq> [] \<Longrightarrow> column_dtype old = D \<Longrightarrow> D \<noteq> Float64 \<Longrightarrow> combined_dtype old D new \<noteq> Float64"
  by (cases D) (auto simp: combined_dtype_def new_dtype_def)

lemma combined_dtype_new:
  assumes "old = [] \<or> column_dtype old = D" "D \<noteq> Float64" "c \<in> set new"
    "combined_dtype old D new = Float64"
  shows "\<not> is_int_cell c"
proof (cases "old = []")
  case True
  with assms(2,4) have "list_all (\<lambda>c. c = Empty) new"
    by (auto simp: combined_dtype_def new_dtype_def split: if_splits)
  with assms(3) have "c = Empty" by (auto simp: list_all_iff)
  then show ?thesis by simp
next
  case False
  with assms(1) have "column_dtype old = D" by simp
  from combined_dtype_old[OF False this assms(2)] assms(4) show ?thesis by simp
qed

lemma stored_new_text:
  assumes "old = [] \<or> column_dtype old = D" "c \<in> set new"
  shows "astype_str D (held (combined_dtype old D new) (held D c)) = astype_str D c"
proof -
  have "D = Float64 \<or> combined_dtype old D new \<noteq> Float64 \<or> \<not> is_int_cell c"
    using combined_dtype_new[OF assms(1) _ assms(2)] by blast
  from held_thrice[OF this] show ?thesis by (simp add: astype_str_def)
qed

lemma stored_old_text:
  assumes "old \<noteq> []" "column_dtype old = D"
  shows "astype_str D (held (combined_dtype old D new) (held D c)) = astype_str D c"
proof -
  have "D = Float64 \<or> combined_dtype old D new \<noteq> Float64 \<or> \<not> is_int_cell c"
    using combined_dtype_old[OF assms] by blast
  from held_thrice[OF this] show ?thesis by (simp add: astype_str_def)
qed

subsection \<open>The rows kept, the rows fetched and the rows written\<close>

lemma kept_rows_drop:
  "clean_cells r = None \<Longrightarrow> kept_rows (xs @ r # ys) = kept_rows (xs @ ys)"
  by (simp add: kept_rows_def List.map_filter_def)

lemma clean_cells_None:
  "clean_cells r = None \<longleftrightarrow>
     up_Name r = Empty \<or> up_Rating r = Missing \<or> (\<exists>s. up_Rating r = NonNumeric s)"
  by (cases "up_Rating r") (auto simp: clean_cells_def)

lemma small_files_drop: "small_files cache (xs @ r # ys) \<Longrightarrow> small_files cache (xs @ ys)"
  by (simp add: small_files_def)

lemma kept_rows_small:
  "small_files cache upload \<Longrightarrow> row \<in> set (kept_rows upload) \<Longrightarrow>
     small_cell (u_Name row) \<and> small_cell (u_Year row)"
  by (auto simp: small_files_def kept_rows_def List.map_filter_def clean_cells_def list_all_iff
      split: if_splits option.splits)

lemma cache_after_typed:
  "cache_after (request_typed e big cache Dn Dy rows) =
     (if to_fetch_typed Dn Dy rows cache = [] then cache
      else case new_rows_typed e Dn Dy rows cache of
             Inl err \<Rightarrow> cache
           | Inr new_rows \<Rightarrow>
               if list_all (\<lambda>c. small_id (c_TMDB_ID c)) new_rows
               then combined_cache Dn Dy cache new_rows
               else fst (big_write big cache Dn Dy rows new_rows))"
  by (simp add: request_typed_def Let_def split: sum.splits)

lemma fetch_log_typed:
  "fetch_log (request_typed e big cache Dn Dy rows) =
     map (\<lambda>row. (pyval_of Dn (u_Name row), pyval_of Dy (u_Year row))) (to_fetch_typed Dn Dy rows cache)"
  by (simp add: request_typed_def Let_def split: sum.splits)

lemma to_fetch_typed_Nil:
  "to_fetch_typed Dn Dy rows cache = [] \<longleftrightarrow>
     (\<forall>row\<in>set rows. key_text Dn Dy (u_Name row) (u_Year row) \<in> set (cache_keys cache))"
  by (auto simp: to_fetch_typed_def filter_empty_conv)

lemma to_fetch_typed_subset: "set (to_fetch_typed Dn Dy rows cache) \<subseteq> set rows"
  by (auto simp: to_fetch_typed_def)

lemma new_rows_loop_cells:
  "new_rows_loop e (zip rows rs) = Inr new \<Longrightarrow> length rs = length rows \<Longrightarrow>
     map c_Name new = map u_Name rows \<and> map c_Year new = map u_Year rows"
proof (induction rows arbitrary: rs new)
  case Nil
  then show ?case by simp
next
  case (Cons row rows)
  from Cons.prems(2) obtain r rs' where rs: "rs = r # rs'" and len: "length rs' = length rows"
    by (cases rs) auto
  obtain m ds where r: "r = (m, ds)" by (cases r) auto
  from Cons.prems(1) obtain c cs where c: "new_row e row m ds = Inr c"
    and cs: "new_rows_loop e (zip rows rs') = Inr cs" and new: "new = c # cs"
    unfolding rs r by (auto simp: bind_err_eq_Inr)
  from Cons.IH[OF cs len] new_row_Inr[OF c] show ?case
    unfolding new by simp
qed

lemma new_rows_typed_cells:
  assumes "new_rows_typed e Dn Dy rows cache = Inr new"
  shows "map c_Name new = map u_Name (to_fetch_typed Dn Dy rows cache)"
    and "map c_Year new = map u_Year (to_fetch_typed Dn Dy rows cache)"
    and "length new = length (to_fetch_typed Dn Dy rows cache)"
proof -
  from assms have n: "new_rows_loop e (zip (to_fetch_typed Dn Dy rows cache)
      (api_results e (map (as_python Dn Dy) (to_fetch_typed Dn Dy rows cache)))) = Inr new"
    by (simp add: new_rows_typed_def Let_def)
  have l: "length (api_results e (map (as_python Dn Dy) (to_fetch_typed Dn Dy rows cache)))
             = length (to_fetch_typed Dn Dy rows cache)"
    by (simp add: api_results_def)
  from new_rows_loop_cells[OF n l]
  show "map c_Name new = map u_Name (to_fetch_typed Dn Dy rows cache)"
    and "map c_Year new = map u_Year (to_fetch_typed Dn Dy rows cache)" by simp_all
  then show "length new = length (to_fetch_typed Dn Dy rows cache)"
    by (metis length_map)
qed

lemma new_rows_small_cells:
  assumes "small_files cache upload" "new_rows_typed e Dn Dy (kept_rows upload) cache = Inr new"
  shows "list_all (\<lambda>c. small_cell (c_Name c) \<and> small_cell (c_Year c)) new"
proof -
  let ?tf = "to_fetch_typed Dn Dy (kept_rows upload) cache"
  have r: "small_cell (u_Name row) \<and> small_cell (u_Year row)" if "row \<in> set ?tf" for row
    using that kept_rows_small[OF assms(1)] to_fetch_typed_subset by blast
  from r have a: "list_all small_cell (map u_Name ?tf)" "list_all small_cell (map u_Year ?tf)"
    by (auto simp: list_all_iff)
  with new_rows_typed_cells(1,2)[OF assms(2)]
  have "list_all small_cell (map c_Name new)" "list_all small_cell (map c_Year new)" by simp_all
  then show ?thesis by (auto simp: list_all_iff)
qed

lemma small_files_combined:
  assumes "small_files cache upload" "list_all (\<lambda>c. small_id (c_TMDB_ID c)) new"
    "list_all (\<lambda>c. small_cell (c_Name c) \<and> small_cell (c_Year c)) new"
  shows "small_files (combined_cache Dn Dy cache new) upload"
  using assms by (auto simp: small_files_def combined_cache_def Let_def list_all_iff)

lemma combined_cache_prefix:
  "length cache \<le> length (combined_cache Dn Dy cache new_rows) \<and>
   list_all2 same_film cache (take (length cache) (combined_cache Dn Dy cache new_rows))"
  by (simp add: combined_cache_def Let_def list_all2_map2 same_film_def list_all2_same)

lemma combined_cache_new:
  "drop (length cache) (combined_cache Dn Dy cache new_rows) =
     map (\<lambda>c. c\<lparr>c_Name := held (combined_dtype (map c_Name cache) Dn (map c_Name new_rows)) (held Dn (c_Name c)),
                c_Year := held (combined_dtype (map c_Year cache) Dy (map c_Year new_rows)) (held Dy (c_Year c))\<rparr>)
       new_rows"
  by (simp add: combined_cache_def Let_def)

lemma cache_after_run:
  assumes "small_files cache upload"
    and "new_rows_typed e (name_dtype upload) (year_dtype upload) (kept_rows upload) cache = Inr new_rows"
    and "list_all (\<lambda>c. small_id (c_TMDB_ID c)) new_rows"
  shows "cache_after (analyze_csv e big cache upload) =
           (if to_fetch_typed (name_dtype upload) (year_dtype upload) (kept_rows upload) cache = []
            then cache
            else combined_cache (name_dtype upload) (year_dtype upload) cache new_rows)"
  using assms by (simp add: analyze_csv_def cache_after_typed)

lemma keys_after_write:
  assumes H1: "cache = [] \<or> (column_dtype (map c_Name cache) = Dn \<and> column_dtype (map c_Year cache) = Dy)"
    and H2: "column_dtype (map c_Name (combined_cache Dn Dy cache new)) = Dn"
            "column_dtype (map c_Year (combined_cache Dn Dy cache new)) = Dy"
  shows "cache_keys (combined_cache Dn Dy cache new) =
           cache_keys cache @ map (\<lambda>c. key_text Dn Dy (c_Name c) (c_Year c)) new"
proof -
  have old: "key_text Dn Dy
               (held (combined_dtype (map c_Name cache) Dn (map c_Name new))
                  (held (column_dtype (map c_Name cache)) (c_Name c)))
               (held (combined_dtype (map c_Year cache) Dy (map c_Year new))
                  (held (column_dtype (map c_Year cache)) (c_Year c)))
             = key_text (column_dtype (map c_Name cache)) (column_dtype (map c_Year cache))
                 (c_Name c) (c_Year c)"
    if "c \<in> set cache" for c
  proof -
    from that have ne: "map c_Name cache \<noteq> []" "map c_Year cache \<noteq> []" by auto
    with H1 have d: "column_dtype (map c_Name cache) = Dn" "column_dtype (map c_Year cache) = Dy"
      by auto
    show ?thesis
      unfolding d key_text_def
      using stored_old_text[OF ne(1) d(1)] stored_old_text[OF ne(2) d(2)] by simp
  qed
  have new: "key_text Dn Dy
               (held (combined_dtype (map c_Name cache) Dn (map c_Name new)) (held Dn (c_Name c)))
               (held (combined_dtype (map c_Year cache) Dy (map c_Year new)) (held Dy (c_Year c)))
             = key_text Dn Dy (c_Name c) (c_Year c)"
    if "c \<in> set new" for c
  proof -
    from H1 have a: "map c_Name cache = [] \<or> column_dtype (map c_Name cache) = Dn"
      and b: "map c_Year cache = [] \<or> column_dtype (map c_Year cache) = Dy" by auto
    from that have m: "c_Name c \<in> set (map c_Name new)" "c_Year c \<in> set (map c_Year new)" by auto
    show ?thesis
      unfolding key_text_def
      using stored_new_text[OF a m(1)] stored_new_text[OF b m(2)] by simp
  qed
  show ?thesis
    unfolding cache_keys_def[of "combined_cache Dn Dy cache new"] H2
    unfolding combined_cache_def Let_def cache_keys_def[of cache]
    using old new by (simp add: comp_def)
qed

lemma keys_covered:
  assumes new: "new_rows_typed e Dn Dy rows cache = Inr new"
    and H1: "cache = [] \<or> (column_dtype (map c_Name cache) = Dn \<and> column_dtype (map c_Year cache) = Dy)"
    and H2: "column_dtype (map c_Name (combined_cache Dn Dy cache new)) = Dn"
            "column_dtype (map c_Year (combined_cache Dn Dy cache new)) = Dy"
  shows "to_fetch_typed Dn Dy rows (combined_cache Dn Dy cache new) = []"
proof -
  have k: "cache_keys (combined_cache Dn Dy cache new) =
           cache_keys cache @ map (\<lambda>c. key_text Dn Dy (c_Name c) (c_Year c)) new"
    using H1 H2 by (rule keys_after_write)
  have "map (\<lambda>c. key_text Dn Dy (c_Name c) (c_Year c)) new
          = map (\<lambda>p. key_text Dn Dy (fst p) (snd p)) (zip (map c_Name new) (map c_Year new))"
    by (simp add: zip_map_map comp_def zip_same_conv_map)
  also have "\<dots> = map (\<lambda>p. key_text Dn Dy (fst p) (snd p))
                     (zip (map u_Name (to_fetch_typed Dn Dy rows cache))
                          (map u_Year (to_fetch_typed Dn Dy rows cache)))"
    using new_rows_typed_cells(1,2)[OF new] by simp
  also have "\<dots> = map (\<lambda>row. key_text Dn Dy (u_Name row) (u_Year row)) (to_fetch_typed Dn Dy rows cache)"
    by (simp add: zip_map_map comp_def zip_same_conv_map)
  finally have n: "map (\<lambda>c. key_text Dn Dy (c_Name c) (c_Year c)) new =
      map (\<lambda>row. key_text Dn Dy (u_Name row) (u_Year row)) (to_fetch_typed Dn Dy rows cache)" .
  have "key_text Dn Dy (u_Name row) (u_Year row) \<in> set (cache_keys (combined_cache Dn Dy cache new))"
    if "row \<in> set rows" for row
  proof (cases "key_text Dn Dy (u_Name row) (u_Year row) \<in> set (cache_keys cache)")
    case True
    then show ?thesis unfolding k by simp
  next
    case False
    with that have "row \<in> set (to_fetch_typed Dn Dy rows cache)" by (simp add: to_fetch_typed_def)
    then show ?thesis unfolding k n by auto
  qed
  then show ?thesis by (simp add: to_fetch_typed_Nil)
qed

lemma fetched_rows_stored:
  assumes "new_rows_typed e Dn Dy rows cache = Inr new_rows"
    and "row \<in> set (to_fetch_typed Dn Dy rows cache)"
  shows "\<exists>c \<in> set (combined_cache Dn Dy cache new_rows).
           cell_value (c_Name c) = cell_value (u_Name row) \<and>
           cell_value (c_Year c) = cell_value (u_Year row)"
proof -
  let ?tf = "to_fetch_typed Dn Dy rows cache"
  from assms(2) obtain i where i: "i < length ?tf" "?tf ! i = row" by (auto simp: in_set_conv_nth)
  note c = new_rows_typed_cells[OF assms(1)]
  from i c(3) have il: "i < length new_rows" by simp
  from c(1) i il have n: "c_Name (new_rows ! i) = u_Name row"
    by (metis nth_map)
  from c(2) i il have y: "c_Year (new_rows ! i) = u_Year row"
    by (metis nth_map)
  let ?upd = "\<lambda>c. c\<lparr>c_Name := held (combined_dtype (map c_Name cache) Dn (map c_Name new_rows)) (held Dn (c_Name c)),
                c_Year := held (combined_dtype (map c_Year cache) Dy (map c_Year new_rows)) (held Dy (c_Year c))\<rparr>"
  from il have "?upd (new_rows ! i) \<in> set (map ?upd new_rows)" by simp
  then have "?upd (new_rows ! i) \<in> set (drop (length cache) (combined_cache Dn Dy cache new_rows))"
    unfolding combined_cache_new .
  then have m: "?upd (new_rows ! i) \<in> set (combined_cache Dn Dy cache new_rows)"
    by (rule in_set_dropD)
  have "cell_value (c_Name (?upd (new_rows ! i))) = cell_value (u_Name row) \<and>
        cell_value (c_Year (?upd (new_rows ! i))) = cell_value (u_Year row)"
    by (simp add: n y)
  with m show ?thesis by blast
qed

lemma new_row_of_fetch:
  assumes "new_row e row (fst (get_movie_data e n y)) (snd (get_movie_data e n y)) = Inr c"
  shows "c_Name c = u_Name row \<and> c_Year c = u_Year row \<and> c_URI c = u_URI row \<and>
        ((\<exists>err. fetch_body e n y = Inl err) \<longrightarrow> c_TMDB_ID c = None \<and> c_Directors c = []) \<and>
        ((\<exists>sr results. search_movie e n y = Inr sr \<and>
             py_get sr ''results'' JNull = Inr results \<and> \<not> py_truthy results) \<longrightarrow>
            c_TMDB_ID c = None \<and> c_Directors c = []) \<and>
        (\<forall>k ds. k \<noteq> 0 \<and> fetch_body e n y = Inr (JInt k, ds) \<longrightarrow>
            c_TMDB_ID c = Some k \<and> c_Directors c = ds)"
proof -
  note r = new_row_Inr[OF assms]
  have null: "c_TMDB_ID c = None \<and> c_Directors c = []"
    if "get_movie_data e n y = (JNull, [])"
    using r that by (simp add: tmdb_id_cell_def)
  have a: "c_TMDB_ID c = None \<and> c_Directors c = []"
    if "\<exists>err. fetch_body e n y = Inl err"
    using that get_movie_data_fail[of e n y] null by blast
  have b: "c_TMDB_ID c = None \<and> c_Directors c = []"
    if "\<exists>sr results. search_movie e n y = Inr sr \<and>
             py_get sr ''results'' JNull = Inr results \<and> \<not> py_truthy results"
  proof -
    from that fetch_body_no_results[of e n y]
    have "fetch_body e n y = Inr (JNull, [])"
      by blast
    then have "get_movie_data e n y = (JNull, [])"
      by (simp add: get_movie_data_def)
    then show ?thesis by (rule null)
  qed
  have c: "c_TMDB_ID c = Some k \<and> c_Directors c = ds"
    if "k \<noteq> 0 \<and> fetch_body e n y = Inr (JInt k, ds)" for k ds
  proof -
    from that have "get_movie_data e n y = (JInt k, ds)"
      by (simp add: get_movie_data_def)
    with r that show ?thesis by (simp add: tmdb_id_cell_def)
  qed
  from r a b c show ?thesis by blast
qed

lemma new_rows_loop_results:
  "new_rows_loop e (zip rows (api_results e (map f rows))) = Inr new \<Longrightarrow>
     list_all2 (\<lambda>row c. new_row e row (fst (get_movie_data e (u_Name (f row)) (u_Year (f row))))
                                     (snd (get_movie_data e (u_Name (f row)) (u_Year (f row)))) = Inr c)
       rows new"
proof (induction rows arbitrary: new)
  case Nil
  then show ?case by (simp add: api_results_def)
next
  case (Cons row rows)
  obtain m ds where r: "get_movie_data e (u_Name (f row)) (u_Year (f row)) = (m, ds)"
    by (cases "get_movie_data e (u_Name (f row)) (u_Year (f row))") auto
  from Cons.prems obtain c cs where c: "new_row e row m ds = Inr c"
    and cs: "new_rows_loop e (zip rows (api_results e (map f rows))) = Inr cs" and new: "new = c # cs"
    by (auto simp: api_results_def r bind_err_eq_Inr)
  from Cons.IH[OF cs] c show ?case unfolding new by (simp add: r)
qed

lemma new_rows_typed_results:
  assumes "new_rows_typed e Dn Dy rows cache = Inr new"
  shows "list_all2 (\<lambda>row c.
           new_row e row (fst (get_movie_data e (pyval_of Dn (u_Name row)) (pyval_of Dy (u_Year row))))
                         (snd (get_movie_data e (pyval_of Dn (u_Name row)) (pyval_of Dy (u_Year row))))
             = Inr c)
         (to_fetch_typed Dn Dy rows cache) new"
proof -
  from assms have "new_rows_loop e (zip (to_fetch_typed Dn Dy rows cache)
      (api_results e (map (as_python Dn Dy) (to_fetch_typed Dn Dy rows cache)))) = Inr new"
    by (simp add: new_rows_typed_def Let_def)
  from new_rows_loop_results[OF this] show ?thesis by (simp add: as_python_def)
qed

subsection \<open>Runs on concrete files\<close>

lemmas csv_defs = analyze_csv_def small_files_def small_def
      request_typed_def name_dtype_def year_dtype_def column_dtype_def kept_rows_def
      List.map_filter_def clean_cells_def to_fetch_typed_def cache_keys_def key_text_def
      astype_str_def held_def pyval_of_def Let_def new_rows_typed_def as_python_def
      api_results_def new_row_def tmdb_id_cell_def combined_cache_def combined_dtype_def new_dtype_def

lemmas response_defs = respond_def merged_typed_def merge_refused_def infer_dtype_def
  aggregate_def empty_buckets_def py_mean_def top_director_data_def
  top_female_picks_def female_directed_df_def is_female_def render_pick_def

lemma py_str_years: "py_str_int 2000 = ''2000''" "py_str_int 1999 = ''1999''" "py_str_int 999 = ''999''"
  by (simp_all add: py_str_int_def digits_of_nat.simps)

lemma csv_fetch: "get_movie_data csv_env n y =
     (JInt 7, [\<lparr>name = JStr ''Ada'', gender = ''Female''\<rparr>, \<lparr>name = JStr ''Cy'', gender = ''Other''\<rparr>])"
  by (simp add: get_movie_data_def fetch_body_def csv_env_def demo_search_def demo_crew_def
      dict_lookup_def director_entry_def)

lemma first_run: "fetch_log (analyze_csv csv_env big [] [film_row]) = [(PStr ''Film'', PInt 2000)]"
   "cache_after (analyze_csv csv_env big [] [film_row]) = [film_2000]"
  by (simp_all add: csv_defs film_row_def film_2000_def csv_fetch)

lemma first_new_rows:
  "new_rows_typed csv_env (name_dtype [film_row]) (year_dtype [film_row]) (kept_rows [film_row]) [] = Inr [film_2000]"
  by (simp add: csv_defs film_row_def film_2000_def csv_fetch)

lemma small_first: "small_files [] [film_row]"
  by (simp add: small_files_def film_row_def small_def)

lemma small_ids_first: "list_all (\<lambda>c. small_id (c_TMDB_ID c)) [film_2000]"
  by (simp add: film_2000_def small_def)

lemma dtypes_film_2000:
  "column_dtype (map c_Name [film_2000]) = name_dtype [film_row]"
  "column_dtype (map c_Year [film_2000]) = year_dtype [film_row]"
  by (simp_all add: name_dtype_def year_dtype_def column_dtype_def film_row_def film_2000_def)

subsection \<open>The external id of a cache entry\<close>

text \<open>
  C5 (amended). On files whose numbers are within the float64 bound, and when the ids
  fetched are: the rows a completed run adds to the cache are one for each row to fetch,
  in order, with its title and its year. The row of a fetch that failed at any step, or
  whose search found nothing, has a null external id and no directors; the row of a fetch
  that returned a non-zero integer id has that id and the directors of the fetch.
\<close>

theorem cache_entry_external_id:
  assumes sm: "small_files cache upload"
    and run: "new_rows_typed e (name_dtype upload) (year_dtype upload) (kept_rows upload) cache = Inr new_rows"
    and ids: "list_all (\<lambda>c. small_id (c_TMDB_ID c)) new_rows"
  shows "list_all2 (\<lambda>row c.
        cell_value (c_Name c) = cell_value (u_Name row) \<and>
        cell_value (c_Year c) = cell_value (u_Year row) \<and>
        ((\<exists>err. fetch_body e (pyval_of (name_dtype upload) (u_Name row))
                               (pyval_of (year_dtype upload) (u_Year row)) = Inl err) \<longrightarrow>
            c_TMDB_ID c = None \<and> c_Directors c = []) \<and>
        ((\<exists>sr results. search_movie e (pyval_of (name_dtype upload) (u_Name row))
                                       (pyval_of (year_dtype upload) (u_Year row)) = Inr sr \<and>
             py_get sr ''results'' JNull = Inr results \<and> \<not> py_truthy results) \<longrightarrow>
            c_TMDB_ID c = None \<and> c_Directors c = []) \<and>
        (\<forall>k ds. k \<noteq> 0 \<and> fetch_body e (pyval_of (name_dtype upload) (u_Name row))
                                        (pyval_of (year_dtype upload) (u_Year row)) = Inr (JInt k, ds) \<longrightarrow>
            c_TMDB_ID c = Some k \<and> c_Directors c = ds))
      (to_fetch_typed (name_dtype upload) (year_dtype upload) (kept_rows upload) cache)
      (drop (length cache) (cache_after (analyze_csv e big cache upload)))"
proof -
  let ?Dn = "name_dtype upload" and ?Dy = "year_dtype upload" and ?rows = "kept_rows upload"
  let ?tf = "to_fetch_typed ?Dn ?Dy ?rows cache"
  let ?Q = "\<lambda>row c.
        cell_value (c_Name c) = cell_value (u_Name row) \<and>
        cell_value (c_Year c) = cell_value (u_Year row) \<and>
        ((\<exists>err. fetch_body e (pyval_of ?Dn (u_Name row)) (pyval_of ?Dy (u_Year row)) = Inl err) \<longrightarrow>
            c_TMDB_ID c = None \<and> c_Directors c = []) \<and>
        ((\<exists>sr results. search_movie e (pyval_of ?Dn (u_Name row)) (pyval_of ?Dy (u_Year row)) = Inr sr \<and>
             py_get sr ''results'' JNull = Inr results \<and> \<not> py_truthy results) \<longrightarrow>
            c_TMDB_ID c = None \<and> c_Directors c = []) \<and>
        (\<forall>k ds. k \<noteq> 0 \<and> fetch_body e (pyval_of ?Dn (u_Name row)) (pyval_of ?Dy (u_Year row))
                                = Inr (JInt k, ds) \<longrightarrow>
            c_TMDB_ID c = Some k \<and> c_Directors c = ds)"
  show ?thesis
  proof (cases "?tf = []")
    case True
    with sm show ?thesis by (simp add: analyze_csv_def cache_after_typed)
  next
    case False
    let ?upd = "\<lambda>c. c\<lparr>c_Name := held (combined_dtype (map c_Name cache) ?Dn (map c_Name new_rows)) (held ?Dn (c_Name c)),
                c_Year := held (combined_dtype (map c_Year cache) ?Dy (map c_Year new_rows)) (held ?Dy (c_Year c))\<rparr>"
    from False sm run ids
    have ca: "cache_after (analyze_csv e big cache upload) = combined_cache ?Dn ?Dy cache new_rows"
      by (simp add: analyze_csv_def cache_after_typed)
    have "list_all2 (\<lambda>row c. ?Q row (?upd c)) ?tf new_rows"
      using new_rows_typed_results[OF run]
    proof (rule list_all2_mono)
      fix row c
      assume "new_row e row (fst (get_movie_data e (pyval_of ?Dn (u_Name row)) (pyval_of ?Dy (u_Year row))))
                (snd (get_movie_data e (pyval_of ?Dn (u_Name row)) (pyval_of ?Dy (u_Year row)))) = Inr c"
      from new_row_of_fetch[OF this] show "?Q row (?upd c)" by auto
    qed
    then have "list_all2 ?Q ?tf (map ?upd new_rows)" by (simp add: list_all2_map2)
    then show ?thesis unfolding ca combined_cache_new .
  qed
qed

theorem cache_entry_external_id_witness:
  "small_files [] [film_row]
   \<and> new_rows_typed csv_env (name_dtype [film_row]) (year_dtype [film_row]) (kept_rows [film_row]) []
       = Inr [film_2000]
   \<and> list_all (\<lambda>c. small_id (c_TMDB_ID c)) [film_2000]
   \<and> to_fetch_typed (name_dtype [film_row]) (year_dtype [film_row]) (kept_rows [film_row]) []
       = [\<lparr>u_Name = TextCell ''Film'', u_Year = IntCell 2000, u_Rating = 4, u_URI = ''uri''\<rparr>]
   \<and> fetch_body csv_env (PStr ''Film'') (PInt 2000) =
       Inr (JInt 7, [\<lparr>name = JStr ''Ada'', gender = ''Female''\<rparr>, \<lparr>name = JStr ''Cy'', gender = ''Other''\<rparr>])
   \<and> drop (length ([] :: (cell, cell) cache_row list)) (cache_after (analyze_csv csv_env no_big [] [film_row]))
       = [film_2000]
   \<and> c_TMDB_ID film_2000 = Some 7
   \<and> c_Directors film_2000 = [\<lparr>name = JStr ''Ada'', gender = ''Female''\<rparr>, \<lparr>name = JStr ''Cy'', gender = ''Other''\<rparr>]"
proof -
  have tf: "to_fetch_typed (name_dtype [film_row]) (year_dtype [film_row]) (kept_rows [film_row]) []
       = [\<lparr>u_Name = TextCell ''Film'', u_Year = IntCell 2000, u_Rating = 4, u_URI = ''uri''\<rparr>]"
    by (simp add: csv_defs film_row_def)
  have d: "name_dtype [film_row] = Object" "year_dtype [film_row] = Int64"
    by (simp_all add: name_dtype_def year_dtype_def column_dtype_def film_row_def)
  have fb: "fetch_body csv_env (PStr ''Film'') (PInt 2000) =
       Inr (JInt 7, [\<lparr>name = JStr ''Ada'', gender = ''Female''\<rparr>, \<lparr>name = JStr ''Cy'', gender = ''Other''\<rparr>])"
    by (simp add: fetch_body_def csv_env_def demo_search_def demo_crew_def
        dict_lookup_def director_entry_def)
  have ca: "drop (length ([] :: (cell, cell) cache_row list)) (cache_after (analyze_csv csv_env no_big [] [film_row]))
       = [film_2000]"
    by (simp add: first_run)
  from cache_entry_external_id[OF small_first first_new_rows small_ids_first, of no_big]
  have "c_TMDB_ID film_2000 = Some 7 \<and>
         c_Directors film_2000 = [\<lparr>name = JStr ''Ada'', gender = ''Female''\<rparr>, \<lparr>name = JStr ''Cy'', gender = ''Other''\<rparr>]"
    unfolding tf ca by (auto simp: d pyval_of_def held_def fb)
  with small_first first_new_rows small_ids_first tf fb ca show ?thesis by (intro conjI) simp_all
qed

theorem null_id_despite_match_counterexample:
  "search_movie (csv_env\<lparr>movie_credits := \<lambda>m. Inl TimeoutError\<rparr>) (PStr ''Film'') (PInt 2000)
     = Inr (JObj [(''page'', JInt 1), (''results'', JArr [JObj [(''id'', JInt 7)], JObj [(''id'', JInt 8)]])])
   \<and> cache_after (analyze_csv (csv_env\<lparr>movie_credits := \<lambda>m. Inl TimeoutError\<rparr>) no_big [] [film_row])
     = [\<lparr>c_Name = TextCell ''Film'', c_Year = IntCell 2000, c_URI = ''uri'', c_TMDB_ID = None,
         c_Directors = []\<rparr>]
   \<and> cache_after (analyze_csv
        (csv_env\<lparr>search_movie := \<lambda>n y. Inr (JObj [(''results'', JArr [JObj [(''id'', JInt 0)]])])\<rparr>)
        no_big [] [film_row])
     = [\<lparr>c_Name = TextCell ''Film'', c_Year = IntCell 2000, c_URI = ''uri'', c_TMDB_ID = None,
         c_Directors = [\<lparr>name = JStr ''Ada'', gender = ''Female''\<rparr>,
                        \<lparr>name = JStr ''Cy'', gender = ''Other''\<rparr>]\<rparr>]"
  by (simp add: csv_defs film_row_def get_movie_data_def fetch_body_def csv_env_def demo_search_def
      demo_crew_def dict_lookup_def director_entry_def)

subsection \<open>A second run on the same upload\<close>

text \<open>
  C8 (amended). On files whose numbers are within the float64 bound: when a run on the
  upload has completed, with fetched ids within the bound, and the columns \<^verbatim>\<open>Name\<close> and
  \<^verbatim>\<open>Year\<close> of the cache have, before the run and after it, the types of those columns
  of the upload (or the cache has no row), then a second request on the same upload with
  the cache the first run left, whatever the movie database answers then, calls the
  fetcher zero times and leaves the cache as it is. The key of every kept row, the text
  of its name followed by the text of its year, is then among the keys of that cache;
  every row the first run fetched has a row of that cache with its title and its year.
\<close>

theorem second_run_fetches_nothing:
  assumes sm: "small_files cache upload"
    and run: "new_rows_typed e (name_dtype upload) (year_dtype upload) (kept_rows upload) cache = Inr new_rows"
    and ids: "list_all (\<lambda>c. small_id (c_TMDB_ID c)) new_rows"
    and after: "cache_after (analyze_csv e big cache upload) = cache'"
    and H1: "cache = [] \<or> (column_dtype (map c_Name cache) = name_dtype upload \<and>
                            column_dtype (map c_Year cache) = year_dtype upload)"
    and H2: "cache' = [] \<or> (column_dtype (map c_Name cache') = name_dtype upload \<and>
                             column_dtype (map c_Year cache') = year_dtype upload)"
  shows "fetch_log (analyze_csv e2 big2 cache' upload) = []
       \<and> cache_after (analyze_csv e2 big2 cache' upload) = cache'
       \<and> (\<forall>row\<in>set (kept_rows upload).
            key_text (name_dtype upload) (year_dtype upload) (u_Name row) (u_Year row)
              \<in> set (cache_keys cache'))
       \<and> (\<forall>row\<in>set (to_fetch_typed (name_dtype upload) (year_dtype upload) (kept_rows upload) cache).
            \<exists>c\<in>set cache'. cell_value (c_Name c) = cell_value (u_Name row) \<and>
                             cell_value (c_Year c) = cell_value (u_Year row))"
proof -
  let ?Dn = "name_dtype upload" and ?Dy = "year_dtype upload" and ?rows = "kept_rows upload"
  have c': "cache' = (if to_fetch_typed ?Dn ?Dy ?rows cache = [] then cache
                      else combined_cache ?Dn ?Dy cache new_rows)"
    using after cache_after_run[OF sm run ids, of big] by simp
  have sm': "small_files cache' upload"
    unfolding c' using sm small_files_combined[OF sm ids new_rows_small_cells[OF sm run]] by simp
  have tf: "to_fetch_typed ?Dn ?Dy ?rows cache' = []"
  proof (cases "to_fetch_typed ?Dn ?Dy ?rows cache = []")
    case True
    then show ?thesis unfolding c' by simp
  next
    case False
    then have eq: "cache' = combined_cache ?Dn ?Dy cache new_rows" unfolding c' by simp
    from False new_rows_typed_cells(3)[OF run] have "new_rows \<noteq> []" by auto
    then have "cache' \<noteq> []" unfolding eq by (simp add: combined_cache_def Let_def)
    with H2 have d: "column_dtype (map c_Name (combined_cache ?Dn ?Dy cache new_rows)) = ?Dn"
      "column_dtype (map c_Year (combined_cache ?Dn ?Dy cache new_rows)) = ?Dy"
      unfolding eq by simp_all
    show ?thesis unfolding eq using run H1 d by (rule keys_covered)
  qed
  from tf sm' have a: "fetch_log (analyze_csv e2 big2 cache' upload) = []"
    by (simp add: analyze_csv_def fetch_log_typed)
  from tf sm' have b: "cache_after (analyze_csv e2 big2 cache' upload) = cache'"
    by (simp add: analyze_csv_def cache_after_typed)
  from tf have c: "\<forall>row\<in>set ?rows. key_text ?Dn ?Dy (u_Name row) (u_Year row) \<in> set (cache_keys cache')"
    by (simp add: to_fetch_typed_Nil)
  have d: "\<forall>row\<in>set (to_fetch_typed ?Dn ?Dy ?rows cache).
            \<exists>c\<in>set cache'. cell_value (c_Name c) = cell_value (u_Name row) \<and>
                             cell_value (c_Year c) = cell_value (u_Year row)"
  proof
    fix row assume r: "row \<in> set (to_fetch_typed ?Dn ?Dy ?rows cache)"
    then have "to_fetch_typed ?Dn ?Dy ?rows cache \<noteq> []" by auto
    then have "cache' = combined_cache ?Dn ?Dy cache new_rows" unfolding c' by simp
    with fetched_rows_stored[OF run r]
    show "\<exists>c\<in>set cache'. cell_value (c_Name c) = cell_value (u_Name row) \<and>
                             cell_value (c_Year c) = cell_value (u_Year row)" by simp
  qed
  from a b c d show ?thesis by (intro conjI)
qed

theorem second_run_fetches_nothing_witness:
  "small_files [] [film_row]
   \<and> new_rows_typed csv_env (name_dtype [film_row]) (year_dtype [film_row]) (kept_rows [film_row]) []
       = Inr [film_2000]
   \<and> list_all (\<lambda>c. small_id (c_TMDB_ID c)) [film_2000]
   \<and> fetch_log (analyze_csv csv_env no_big [] [film_row]) = [(PStr ''Film'', PInt 2000)]
   \<and> cache_after (analyze_csv csv_env no_big [] [film_row]) = [film_2000]
   \<and> column_dtype (map c_Name [film_2000]) = name_dtype [film_row]
   \<and> column_dtype (map c_Year [film_2000]) = year_dtype [film_row]
   \<and> fetch_log (analyze_csv csv_env no_big [film_2000] [film_row]) = []
   \<and> cache_after (analyze_csv csv_env no_big [film_2000] [film_row]) = [film_2000]"
proof -
  have H1: "([] :: (cell, cell) cache_row list) = [] \<or>
      (column_dtype (map c_Name ([] :: (cell, cell) cache_row list)) = name_dtype [film_row] \<and>
       column_dtype (map c_Year ([] :: (cell, cell) cache_row list)) = year_dtype [film_row])"
    by simp
  have H2: "[film_2000] = [] \<or>
      (column_dtype (map c_Name [film_2000]) = name_dtype [film_row] \<and>
       column_dtype (map c_Year [film_2000]) = year_dtype [film_row])"
    using dtypes_film_2000 by simp
  from second_run_fetches_nothing[OF small_first first_new_rows small_ids_first first_run(2) H1 H2,
      of csv_env no_big]
  have "fetch_log (analyze_csv csv_env no_big [film_2000] [film_row]) = []
      \<and> cache_after (analyze_csv csv_env no_big [film_2000] [film_row]) = [film_2000]"
    by simp
  with small_first first_new_rows small_ids_first first_run dtypes_film_2000
  show ?thesis by (intro conjI) simp_all
qed

theorem second_run_fetches_again_counterexample:
  "fetch_log (analyze_csv csv_env no_big [film1_999] [film_1999_row]) = []
   \<and> cache_after (analyze_csv csv_env no_big [film1_999] [film_1999_row]) = [film1_999]
   \<and> (MStr ''Film'', MNum 1999)
        \<notin> set (map (\<lambda>c. (cell_value (c_Name c), cell_value (c_Year c))) [film1_999])
   \<and> fetch_log (analyze_csv csv_env no_big [yearless_cached] [film_row]) = [(PStr ''Film'', PInt 2000)]
   \<and> cache_after (analyze_csv csv_env no_big [yearless_cached] [film_row])
       = [yearless_cached, film_2000\<lparr>c_Year := FloatCell 2000\<rparr>]
   \<and> fetch_log (analyze_csv csv_env no_big [yearless_cached, film_2000\<lparr>c_Year := FloatCell 2000\<rparr>] [film_row])
       = [(PStr ''Film'', PInt 2000)]"
  by (simp add: csv_defs film_row_def film_2000_def film1_999_def film_1999_row_def yearless_cached_def
      csv_fetch py_str_years)

subsection \<open>The rows of the cache across a run\<close>

text \<open>
  What a run keeps of the cache it found, on files within the float64 bound and with
  fetched ids within it: every old row is still there, at its place, with its title, its
  year as a number, its URI, id and directors.
\<close>

lemma cache_rows_survive:
  assumes "small_files cache upload"
    and "\<forall>new_rows. new_rows_typed e (name_dtype upload) (year_dtype upload) (kept_rows upload) cache
                       = Inr new_rows \<longrightarrow> list_all (\<lambda>c. small_id (c_TMDB_ID c)) new_rows"
  shows "length cache \<le> length (cache_after (analyze_csv e big cache upload))
   \<and> list_all2 same_film cache
       (take (length cache) (cache_after (analyze_csv e big cache upload)))
   \<and> set (map (\<lambda>c. (cell_value (c_Name c), cell_value (c_Year c))) cache)
       \<subseteq> set (map (\<lambda>c. (cell_value (c_Name c), cell_value (c_Year c)))
                 (cache_after (analyze_csv e big cache upload)))"
proof -
  let ?after = "cache_after (analyze_csv e big cache upload)"
  have "?after = cache \<or> (\<exists>new_rows. ?after =
          combined_cache (name_dtype upload) (year_dtype upload) cache new_rows)"
    using assms by (auto simp: analyze_csv_def cache_after_typed split: sum.splits)
  then have p: "length cache \<le> length ?after \<and> list_all2 same_film cache (take (length cache) ?after)"
    using combined_cache_prefix by (auto simp: list_all2_same same_film_def)
  have "(cell_value (c_Name c), cell_value (c_Year c))
          \<in> set (map (\<lambda>c. (cell_value (c_Name c), cell_value (c_Year c))) ?after)"
    if "c \<in> set cache" for c
  proof -
    from that obtain i where i: "i < length cache" "cache ! i = c" by (auto simp: in_set_conv_nth)
    with p have "same_film c (take (length cache) ?after ! i)"
      by (auto simp: list_all2_conv_all_nth)
    moreover from i p have "take (length cache) ?after ! i \<in> set ?after"
      by (metis in_set_takeD length_take min.absorb2 nth_mem)
    ultimately obtain c' where "c' \<in> set ?after" "same_film c c'" by blast
    then have "(cell_value (c_Name c), cell_value (c_Year c)) =
                 (\<lambda>c. (cell_value (c_Name c), cell_value (c_Year c))) c'"
      by (simp add: same_film_def)
    then show ?thesis unfolding set_map using \<open>c' \<in> set ?after\<close> by (rule image_eqI)
  qed
  then show ?thesis using p by auto
qed

text \<open>
  C9. The claim fails on the keys the request itself compares. The cache file holds the
  row of the film \<^verbatim>\<open>Film\<close> of \<^verbatim>\<open>2000\<close>, whose key is \<^verbatim>\<open>Film2000\<close>, and the upload is one
  rated row with a title and no year. The run appends the row and writes the year of the
  old row as \<^verbatim>\<open>2000.0\<close>: the keys of the cache are then \<^verbatim>\<open>Film2000.0\<close> and \<^verbatim>\<open>Newnan\<close>,
  and \<^verbatim>\<open>Film2000\<close> is no longer among them.
\<close>

theorem appended_row_retypes_old_keys:
  "cache_keys [film_2000] = [''Film2000'']
   \<and> cache_after (analyze_csv csv_env no_big [film_2000] [yearless_row])
       = [film_2000\<lparr>c_Year := FloatCell 2000\<rparr>,
          \<lparr>c_Name = TextCell ''New'', c_Year = Empty, c_URI = ''uri3'', c_TMDB_ID = Some 7,
           c_Directors = [\<lparr>name = JStr ''Ada'', gender = ''Female''\<rparr>,
                          \<lparr>name = JStr ''Cy'', gender = ''Other''\<rparr>]\<rparr>]
   \<and> cache_keys (cache_after (analyze_csv csv_env no_big [film_2000] [yearless_row]))
       = [''Film2000.0'', ''Newnan'']
   \<and> ''Film2000'' \<notin> set (cache_keys (cache_after (analyze_csv csv_env no_big [film_2000] [yearless_row])))"
  by (simp add: csv_defs film_2000_def yearless_row_def csv_fetch py_str_years)

subsection \<open>Rows dropped from the upload\<close>

text \<open>
  An uploaded row with no name, or with a rating that is missing or not a number, is not
  among the rows kept, and the request sees it only through the types of the columns
  \<^verbatim>\<open>Name\<close> and \<^verbatim>\<open>Year\<close>: when these are the same without the row, so is the request.
\<close>

lemma dropped_row_acts_through_types:
  assumes "small_files cache (xs @ r # ys)"
    and "up_Name r = Empty \<or> up_Rating r = Missing \<or> up_Rating r = NonNumeric s"
  shows "kept_rows (xs @ r # ys) = kept_rows (xs @ ys)
   \<and> analyze_csv e big cache (xs @ r # ys) =
       request_typed e big cache (name_dtype (xs @ r # ys)) (year_dtype (xs @ r # ys))
         (kept_rows (xs @ ys))
   \<and> (name_dtype (xs @ r # ys) = name_dtype (xs @ ys) \<and>
      year_dtype (xs @ r # ys) = year_dtype (xs @ ys) \<longrightarrow>
        analyze_csv e big cache (xs @ r # ys) = analyze_csv e big cache (xs @ ys))"
proof -
  from assms(2) have "clean_cells r = None" by (auto simp: clean_cells_None)
  then have k: "kept_rows (xs @ r # ys) = kept_rows (xs @ ys)" by (rule kept_rows_drop)
  from assms(1) have s: "small_files cache (xs @ ys)" by (rule small_files_drop)
  show ?thesis using assms(1) s k by (simp add: analyze_csv_def)
qed

text \<open>
  C10. The claim fails for a dropped row with an empty year. The cache file holds the
  film \<^verbatim>\<open>Film\<close> of \<^verbatim>\<open>2000\<close>. An upload with that film alone fetches nothing. With one more
  row that has no name and no year, the row is dropped, yet the fetcher is called for
  \<^verbatim>\<open>Film\<close> with the year \<^verbatim>\<open>2000.0\<close>, a second row for the film is written to the cache,
  and the rating of the film is counted twice in the response.
\<close>

theorem dropped_row_changes_other_fetches:
  "kept_rows [film_row, nameless_row] = kept_rows [film_row]
   \<and> fetch_log (analyze_csv csv_env no_big [film_2000] [film_row]) = []
   \<and> cache_after (analyze_csv csv_env no_big [film_2000] [film_row]) = [film_2000]
   \<and> response (analyze_csv csv_env no_big [film_2000] [film_row]) =
       Inr \<lparr>female_avg = 4, other_avg = 4,
            most_watched_female_director = Some (JStr ''Ada'', 1),
            best_rated_female_directed =
              [\<lparr>p_Name = PStr ''Film'', p_Year = PInt 2000, p_TMDB_ID = 7, p_Rating = 4, p_URI = ''uri''\<rparr>]\<rparr>
   \<and> fetch_log (analyze_csv csv_env no_big [film_2000] [film_row, nameless_row])
       = [(PStr ''Film'', PFloat 2000)]
   \<and> cache_after (analyze_csv csv_env no_big [film_2000] [film_row, nameless_row])
       = [film_2000\<lparr>c_Year := FloatCell 2000\<rparr>, film_2000\<lparr>c_Year := FloatCell 2000\<rparr>]
   \<and> response (analyze_csv csv_env no_big [film_2000] [film_row, nameless_row]) =
       Inr \<lparr>female_avg = 4, other_avg = 4,
            most_watched_female_director = Some (JStr ''Ada'', 2),
            best_rated_female_directed =
              [\<lparr>p_Name = PStr ''Film'', p_Year = PFloat 2000, p_TMDB_ID = 7, p_Rating = 4, p_URI = ''uri''\<rparr>,
               \<lparr>p_Name = PStr ''Film'', p_Year = PFloat 2000, p_TMDB_ID = 7, p_Rating = 4, p_URI = ''uri''\<rparr>]\<rparr>"
  by (simp add: csv_defs film_2000_def film_row_def nameless_row_def csv_fetch py_str_years response_defs)

end
